theory Spec2Isabelle
  imports Complex_Main
begin

section \<open>Python values and exceptions\<close>

text \<open>
  The Python exceptions that the modelled code of \<^verbatim>\<open>basemaps/mapviewer.py\<close> can raise.
  A call that raises is the value \<open>Inl e\<close>; a call that returns \<open>v\<close> is \<open>Inr v\<close>.
  Python numbers (ints and floats) that hold coordinates and resolutions are modelled
  as exact reals: comparisons are the source's, arithmetic is without rounding.
\<close>

datatype py_error =
    IndexError | ValueError | AttributeError | NameError | TypeError
  | ZeroDivisionError | NotImplementedError | KeyError
  | DatabaseError | OperationalError | IntegrityError

definition bind_r :: "py_error + 'a \<Rightarrow> ('a \<Rightarrow> py_error + 'b) \<Rightarrow> py_error + 'b" where
  "bind_r m f = (case m of Inl e \<Rightarrow> Inl e | Inr v \<Rightarrow> f v)"

text \<open>\<^verbatim>\<open>xs[i]\<close>: a negative index counts from the end, anything else out of range raises.\<close>

definition py_index :: "'a list \<Rightarrow> int \<Rightarrow> py_error + 'a" where
  "py_index xs i =
     (if 0 \<le> i \<and> i < int (length xs) then Inr (xs ! nat i)
      else if i < 0 \<and> - int (length xs) \<le> i then Inr (xs ! nat (int (length xs) + i))
      else Inl IndexError)"

text \<open>\<^verbatim>\<open>a / b\<close> (true division).\<close>

definition py_truediv :: "real \<Rightarrow> real \<Rightarrow> py_error + real" where
  "py_truediv a b = (if b = 0 then Inl ZeroDivisionError else Inr (a / b))"

text \<open>\<^verbatim>\<open>b ** n\<close> for an integer exponent: zero to a negative power raises.\<close>

definition py_pow :: "real \<Rightarrow> int \<Rightarrow> py_error + real" where
  "py_pow b n = (if b = 0 \<and> n < 0 then Inl ZeroDivisionError else Inr (b powi n))"

text \<open>\<^verbatim>\<open>range(n)\<close>.\<close>

definition py_range :: "int \<Rightarrow> int list" where
  "py_range n = map int [0..<nat n]"

text \<open>A list comprehension whose element expression may raise: the first error wins.\<close>

fun map_r :: "('a \<Rightarrow> py_error + 'b) \<Rightarrow> 'a list \<Rightarrow> py_error + 'b list" where
  "map_r f [] = Inr []"
| "map_r f (x # xs) =
     (case f x of Inl e \<Rightarrow> Inl e
      | Inr y \<Rightarrow> (case map_r f xs of Inl e \<Rightarrow> Inl e | Inr ys \<Rightarrow> Inr (y # ys)))"


section \<open>TileMatrix\<close>

text \<open>
  A \<^verbatim>\<open>TileMatrix\<close> after its constructor has run. The attribute \<^verbatim>\<open>resolutions\<close> exists only
  for a grid defined by an explicit list (\<open>hasattr(self, 'resolutions')\<close> is
  \<open>resolutions tm \<noteq> None\<close>); \<^verbatim>\<open>initRes\<close> and \<^verbatim>\<open>resFactor\<close> are read only when it does not.
\<close>

record TileMatrix =
  CRS :: string
  tileSize :: int
  originLoc :: string
  xmin :: real
  ymin :: real
  xmax :: real
  ymax :: real
  originx :: real
  originy :: real
  resolutions :: "real list option"
  resFactor :: real
  initRes :: real
  nbLevels :: int
  units :: string

definition getRes :: "TileMatrix \<Rightarrow> int \<Rightarrow> py_error + real" where
  "getRes tm zoom =
     (case resolutions tm of
        Some rs \<Rightarrow>
          (let zoom' = (if zoom > int (length rs) then int (length rs) else zoom)
           in py_index rs zoom')
      | None \<Rightarrow> bind_r (py_pow (resFactor tm) zoom) (\<lambda>p. py_truediv (initRes tm) p))"

definition getResList :: "TileMatrix \<Rightarrow> py_error + real list" where
  "getResList tm =
     (case resolutions tm of
        Some rs \<Rightarrow> Inr rs
      | None \<Rightarrow>
          map_r (\<lambda>zoom. bind_r (py_pow (resFactor tm) zoom) (\<lambda>p. py_truediv (initRes tm) p))
                (py_range (nbLevels tm)))"

text \<open>
  The loop of \<^verbatim>\<open>getNearestZoom\<close>, from index \<open>z1\<close> on. Falling off the end of the list
  (only an empty list does) is Python's implicit \<^verbatim>\<open>return None\<close>.
\<close>

function nearestLoop :: "real list \<Rightarrow> nat \<Rightarrow> real \<Rightarrow> string \<Rightarrow> nat option" where
  "nearestLoop resLst z1 res rule =
     (if z1 \<ge> length resLst then None
      else
        let v1 = resLst ! z1 in
        if v1 = res then Some z1
        else if z1 = length resLst - 1 then Some z1
        else
          let z2 = z1 + 1; v2 = resLst ! z2 in
          if v2 = res then Some z2
          else if v1 > res \<and> res > v2 then
            (if rule = ''lower'' then Some z1
             else if rule = ''higher'' then Some z2
             else
               let d1 = v1 - res; d2 = res - v2 in
               if d1 < d2 then Some z1 else Some z2)
          else nearestLoop resLst (z1 + 1) res rule)"
  by pat_completeness auto
termination
  by (relation "measure (\<lambda>(resLst, z1, res, rule). length resLst - z1)") auto

declare nearestLoop.simps [simp del]

definition getNearestZoom :: "TileMatrix \<Rightarrow> real \<Rightarrow> string \<Rightarrow> py_error + nat option" where
  "getNearestZoom tm res rule =
     bind_r (getResList tm) (\<lambda>resLst. Inr (nearestLoop resLst 0 res rule))"

definition getFromToResFac :: "TileMatrix \<Rightarrow> int \<Rightarrow> int \<Rightarrow> py_error + real" where
  "getFromToResFac tm z1 z2 =
     (if z1 = z2 then Inr 1
      else if z1 < z2 then
        (if z2 \<ge> nbLevels tm - 1 then Inr 1
         else bind_r (getRes tm z2) (\<lambda>a. bind_r (getRes tm z1) (\<lambda>b. py_truediv a b)))
      else
        (if z2 \<le> 0 then Inr 1
         else bind_r (getRes tm z2) (\<lambda>a. bind_r (getRes tm z1) (\<lambda>b. py_truediv a b))))"

definition getPrevResFac :: "TileMatrix \<Rightarrow> int \<Rightarrow> py_error + real" where
  "getPrevResFac tm z = getFromToResFac tm z (z - 1)"

definition getNextResFac :: "TileMatrix \<Rightarrow> int \<Rightarrow> py_error + real" where
  "getNextResFac tm z = getFromToResFac tm z (z + 1)"

text \<open>
  Tile indices and tile corners. The constructor accepts only the origins \<^verbatim>\<open>NW\<close> and
  \<^verbatim>\<open>SW\<close>; the methods test for \<^verbatim>\<open>NW\<close> and take anything else as \<^verbatim>\<open>SW\<close>.
\<close>

definition getTileNumber :: "TileMatrix \<Rightarrow> real \<Rightarrow> real \<Rightarrow> int \<Rightarrow> py_error + int \<times> int" where
  "getTileNumber tm x y zoom =
     bind_r (getRes tm zoom) (\<lambda>res.
       let geoTileSize = real_of_int (tileSize tm) * res;
           dx = x - originx tm;
           dy = (if originLoc tm = ''NW'' then originy tm - y else y - originy tm)
       in bind_r (py_truediv dx geoTileSize) (\<lambda>col.
          bind_r (py_truediv dy geoTileSize) (\<lambda>row.
            Inr (\<lfloor>col\<rfloor>, \<lfloor>row\<rfloor>))))"

definition getTileCoords :: "TileMatrix \<Rightarrow> int \<Rightarrow> int \<Rightarrow> int \<Rightarrow> py_error + real \<times> real" where
  "getTileCoords tm col row zoom =
     bind_r (getRes tm zoom) (\<lambda>res.
       let geoTileSize = real_of_int (tileSize tm) * res;
           x = originx tm + real_of_int col * geoTileSize;
           y = (if originLoc tm = ''NW'' then originy tm - real_of_int row * geoTileSize
                else originy tm + real_of_int row * geoTileSize + geoTileSize)
       in Inr (x, y))"

definition getTileBbox ::
  "TileMatrix \<Rightarrow> int \<Rightarrow> int \<Rightarrow> int \<Rightarrow> py_error + real \<times> real \<times> real \<times> real" where
  "getTileBbox tm col row zoom =
     bind_r (getTileCoords tm col row zoom) (\<lambda>(xmin', ymax').
     bind_r (getRes tm zoom) (\<lambda>r1.
     bind_r (getRes tm zoom) (\<lambda>r2.
       let xmax' = xmin' + real_of_int (tileSize tm) * r1;
           ymin' = ymax' - real_of_int (tileSize tm) * r2
       in Inr (xmin', ymin', xmax', ymax'))))"

text \<open>A grid given by an explicit list of three resolutions, as the constructor leaves it.\<close>

definition grid3 :: TileMatrix where
  "grid3 = \<lparr> CRS = ''EPSG:3857'', tileSize = 256, originLoc = ''NW'',
             xmin = 0, ymin = 0, xmax = 1024, ymax = 1024,
             originx = 0, originy = 1024,
             resolutions = Some [4, 2, 1], resFactor = 2, initRes = 4, nbLevels = 3,
             units = ''meters'' \<rparr>"


section \<open>Python string helpers\<close>

text \<open>\<^verbatim>\<open>s.split(c)\<close> for a one-character separator.\<close>

fun py_split :: "char \<Rightarrow> string \<Rightarrow> string list" where
  "py_split c [] = [[]]"
| "py_split c (x # xs) =
     (if x = c then [] # py_split c xs
      else (case py_split c xs of w # ws \<Rightarrow> (x # w) # ws | [] \<Rightarrow> [[x]]))"

definition is_digit :: "char \<Rightarrow> bool" where
  "is_digit c = (48 \<le> (of_char c :: nat) \<and> (of_char c :: nat) \<le> 57)"

definition digits_value :: "string \<Rightarrow> nat" where
  "digits_value s = foldl (\<lambda>acc c. 10 * acc + (of_char c - 48)) 0 s"

text \<open>
  \<^verbatim>\<open>int(s)\<close> for a string: an optional sign and decimal digits; anything else raises
  ValueError. (Python also accepts surrounding blanks and underscores between digits;
  a CRS code never has them.)
\<close>

definition py_int :: "string \<Rightarrow> py_error + int" where
  "py_int s =
     (let body = (if s \<noteq> [] \<and> (hd s = CHR ''-'' \<or> hd s = CHR ''+'') then tl s else s)
      in if body \<noteq> [] \<and> list_all is_digit body
         then Inr (if s \<noteq> [] \<and> hd s = CHR ''-'' then - int (digits_value body)
                   else int (digits_value body))
         else Inl ValueError)"

function str_nat :: "nat \<Rightarrow> string" where
  "str_nat n = (if n < 10 then [''0123456789'' ! n]
                else str_nat (n div 10) @ [''0123456789'' ! (n mod 10)])"
  by pat_completeness auto
termination
  by (relation "measure id") auto

declare str_nat.simps [simp del]

text \<open>\<^verbatim>\<open>str(i)\<close> for an int.\<close>

definition py_str :: "int \<Rightarrow> string" where
  "py_str i = (if i < 0 then CHR ''-'' # str_nat (nat (- i)) else str_nat (nat i))"

text \<open>\<^verbatim>\<open>os.path.basename\<close> (POSIX) and the root part of \<^verbatim>\<open>os.path.splitext\<close>.\<close>

definition basename :: "string \<Rightarrow> string" where
  "basename p = rev (takeWhile (\<lambda>c. c \<noteq> CHR ''/'') (rev p))"

definition splitext_root :: "string \<Rightarrow> string" where
  "splitext_root p =
     (let b = basename p;
          dir = take (length p - length b) p;
          ext = takeWhile (\<lambda>c. c \<noteq> CHR ''.'') (rev b);
          root = take (length b - length ext - 1) b
      in if CHR ''.'' \<in> set b \<and> filter (\<lambda>c. c \<noteq> CHR ''.'') root \<noteq> [] then dir @ root else p)"


section \<open>GeoPackage: the tile cache in an SQLite file\<close>

type_synonym bytes = "nat list"

datatype sqlvalue = SqlNull | SqlInt int | SqlReal real | SqlText string | SqlBlob bytes

text \<open>A row of the table \<^verbatim>\<open>gpkg_tiles\<close>; \<open>last_modified\<close> is a local time in seconds.\<close>

record tile_rec =
  zoom_level :: int
  tile_column :: int
  tile_row :: int
  tile_data :: bytes
  last_modified :: int

text \<open>
  An SQLite database file: the application id of its header, its tables with their
  columns, the rows of \<^verbatim>\<open>gpkg_tiles\<close> in rowid order, and the rows of every other table as
  the value tuples that were inserted (tagged with the table's name).
\<close>

record database =
  application_id :: int
  schema :: "(string \<times> string list) list"
  meta_rows :: "(string \<times> sqlvalue list) list"
  gpkg_tiles :: "tile_rec list"

text \<open>A file is an SQLite database, or other bytes that SQLite refuses to read.\<close>

datatype diskfile = NotADatabase bytes | Database database

type_synonym filesystem = "string \<Rightarrow> diskfile option"

definition empty_database :: database where
  "empty_database = \<lparr> application_id = 0, schema = [], meta_rows = [], gpkg_tiles = [] \<rparr>"

text \<open>
  \<^verbatim>\<open>sqlite3.connect(path)\<close> with the first statement run on the connection: a missing file
  is created as an empty database, a file that is not a database makes the statement
  raise DatabaseError.
\<close>

definition connect :: "filesystem \<Rightarrow> string \<Rightarrow> (py_error + database) \<times> filesystem" where
  "connect fs path =
     (case fs path of
        None \<Rightarrow> (Inr empty_database, fs(path \<mapsto> Database empty_database))
      | Some (NotADatabase b) \<Rightarrow> (Inl DatabaseError, fs)
      | Some (Database d) \<Rightarrow> (Inr d, fs))"

text \<open>A \<^verbatim>\<open>SELECT cols FROM tbl\<close> compiles only if the table and the columns exist.\<close>

definition has_columns :: "database \<Rightarrow> string \<Rightarrow> string list \<Rightarrow> bool" where
  "has_columns d tbl cols =
     (case map_of (schema d) tbl of
        None \<Rightarrow> False
      | Some cs \<Rightarrow> list_all (\<lambda>c. c \<in> set cs) cols)"

definition create_table :: "string \<Rightarrow> string list \<Rightarrow> database \<Rightarrow> py_error + database" where
  "create_table tbl cols d =
     (if map_of (schema d) tbl \<noteq> None then Inl OperationalError
      else Inr (d\<lparr>schema := schema d @ [(tbl, cols)]\<rparr>))"

text \<open>
  \<^verbatim>\<open>INSERT INTO tbl (cols) VALUES (vals)\<close>. Each entry of \<open>unique\<close> is a primary key or
  unique constraint, as the positions of its columns in \<open>vals\<close>: a row that agrees with
  the new one on a whole constraint raises IntegrityError, or is deleted first under
  \<^verbatim>\<open>INSERT OR REPLACE\<close>.
\<close>

definition conflicts :: "nat list list \<Rightarrow> sqlvalue list \<Rightarrow> string \<Rightarrow> string \<times> sqlvalue list \<Rightarrow> bool" where
  "conflicts unique vals tbl r =
     (fst r = tbl \<and> list_ex (\<lambda>key. list_all (\<lambda>i. snd r ! i = vals ! i) key) unique)"

definition insert_row ::
  "bool \<Rightarrow> string \<Rightarrow> string list \<Rightarrow> nat list list \<Rightarrow> sqlvalue list \<Rightarrow> database \<Rightarrow> py_error + database" where
  "insert_row or_replace tbl cols unique vals d =
     (if \<not> has_columns d tbl cols then Inl OperationalError
      else if or_replace then
        Inr (d\<lparr>meta_rows := filter (\<lambda>r. \<not> conflicts unique vals tbl r) (meta_rows d) @ [(tbl, vals)]\<rparr>)
      else if list_ex (conflicts unique vals tbl) (meta_rows d) then Inl IntegrityError
      else Inr (d\<lparr>meta_rows := meta_rows d @ [(tbl, vals)]\<rparr>))"

text \<open>Statements run one after the other; the first that raises stops the run.\<close>

fun run_stmts :: "(database \<Rightarrow> py_error + database) list \<Rightarrow> database \<Rightarrow> py_error option \<times> database" where
  "run_stmts [] d = (None, d)"
| "run_stmts (s # ss) d =
     (case s d of Inl e \<Rightarrow> (Some e, d) | Inr d' \<Rightarrow> run_stmts ss d')"

record GeoPackage =
  dbPath :: string
  name :: string
  auth :: string
  code :: int
  gp_tileSize :: int
  gp_xmin :: real
  gp_ymin :: real
  gp_xmax :: real
  gp_ymax :: real
  gp_resolutions :: "real list"

definition MAX_DAYS :: int where
  "MAX_DAYS = 90"

definition GP10 :: int where
  "GP10 = 1196437808"

definition isGPKG :: "GeoPackage \<Rightarrow> filesystem \<Rightarrow> py_error + bool" where
  "isGPKG self fs =
     (case fs (dbPath self) of
        None \<Rightarrow> Inr False
      | Some (NotADatabase b) \<Rightarrow> Inl DatabaseError
      | Some (Database db) \<Rightarrow>
          if \<not> application_id db = GP10 then Inr False
          else if has_columns db ''gpkg_contents'' [''table_name'']
                \<and> has_columns db ''gpkg_spatial_ref_sys'' [''srs_name'']
                \<and> has_columns db ''gpkg_tile_matrix_set'' [''table_name'']
                \<and> has_columns db ''gpkg_tile_matrix'' [''table_name'']
                \<and> has_columns db ''gpkg_tiles''
                      [''zoom_level'', ''tile_column'', ''tile_row'', ''tile_data'']
               then Inr True
               else Inr False)"

text \<open>
  \<^verbatim>\<open>create\<close>: the pragma and the five \<^verbatim>\<open>CREATE TABLE\<close> statements each take effect as they
  run (data definition is not held back in a transaction), so a run that raises part way
  leaves what it did so far in the file.
\<close>

definition create :: "GeoPackage \<Rightarrow> filesystem \<Rightarrow> (py_error + unit) \<times> filesystem" where
  "create self fs =
     (case connect fs (dbPath self) of
        (Inl e, fs') \<Rightarrow> (Inl e, fs')
      | (Inr db, fs') \<Rightarrow>
          (case run_stmts
              [ (\<lambda>d. Inr (d\<lparr>application_id := GP10\<rparr>)),
                create_table ''gpkg_contents''
                  [''table_name'', ''data_type'', ''identifier'', ''description'', ''last_change'',
                   ''min_x'', ''min_y'', ''max_x'', ''max_y'', ''srs_id''],
                create_table ''gpkg_spatial_ref_sys''
                  [''srs_name'', ''srs_id'', ''organization'', ''organization_coordsys_id'',
                   ''definition'', ''description''],
                create_table ''gpkg_tile_matrix_set''
                  [''table_name'', ''srs_id'', ''min_x'', ''min_y'', ''max_x'', ''max_y''],
                create_table ''gpkg_tile_matrix''
                  [''table_name'', ''zoom_level'', ''matrix_width'', ''matrix_height'',
                   ''tile_width'', ''tile_height'', ''pixel_x_size'', ''pixel_y_size''],
                create_table ''gpkg_tiles''
                  [''id'', ''zoom_level'', ''tile_column'', ''tile_row'', ''tile_data'',
                   ''last_modified''] ] db of
             (Some e, db') \<Rightarrow> (Inl e, fs'(dbPath self \<mapsto> Database db'))
           | (None, db') \<Rightarrow> (Inr (), fs'(dbPath self \<mapsto> Database db'))))"

text \<open>
  The three insert methods run their statements in one transaction and commit at the
  end: a statement that raises leaves the database as it was.
\<close>

definition transaction ::
  "string \<Rightarrow> (database \<Rightarrow> py_error + database) list \<Rightarrow> filesystem \<Rightarrow> (py_error + unit) \<times> filesystem" where
  "transaction path stmts fs =
     (case connect fs path of
        (Inl e, fs') \<Rightarrow> (Inl e, fs')
      | (Inr db, fs') \<Rightarrow>
          (case run_stmts stmts db of
             (Some e, db') \<Rightarrow> (Inl e, fs')
           | (None, db') \<Rightarrow> (Inr (), fs'(path \<mapsto> Database db'))))"

definition insertMetadata :: "GeoPackage \<Rightarrow> filesystem \<Rightarrow> (py_error + unit) \<times> filesystem" where
  "insertMetadata self fs =
     transaction (dbPath self)
       [ insert_row False ''gpkg_contents''
           [''table_name'', ''data_type'', ''identifier'', ''description'',
            ''min_x'', ''min_y'', ''max_x'', ''max_y'', ''srs_id'']
           [[0], [2]]
           [SqlText ''gpkg_tiles'', SqlText ''tiles'', SqlText (name self),
            SqlText ''Created with BlenderGIS'',
            SqlReal (gp_xmin self), SqlReal (gp_ymin self), SqlReal (gp_xmax self),
            SqlReal (gp_ymax self), SqlInt (code self)] ] fs"

definition insertCRS ::
  "GeoPackage \<Rightarrow> int \<Rightarrow> string \<Rightarrow> string \<Rightarrow> string \<Rightarrow> filesystem \<Rightarrow> (py_error + unit) \<times> filesystem" where
  "insertCRS self code' name' auth' wkt fs =
     transaction (dbPath self)
       [ insert_row False ''gpkg_spatial_ref_sys''
           [''srs_id'', ''organization'', ''organization_coordsys_id'', ''srs_name'', ''definition'']
           [[0]]
           [SqlInt code', SqlText auth', SqlInt code', SqlText name', SqlText wkt] ] fs"

text \<open>
  One \<^verbatim>\<open>gpkg_tile_matrix\<close> row per level; computing the matrix size divides by
  \<^verbatim>\<open>tileSize * res\<close>, which raises for a zero divisor before the row is inserted.
\<close>

definition tile_matrix_stmt :: "GeoPackage \<Rightarrow> nat \<times> real \<Rightarrow> database \<Rightarrow> py_error + database" where
  "tile_matrix_stmt self lr d =
     (let level = fst lr; res = snd lr in
      bind_r (py_truediv (gp_xmax self - gp_xmin self) (real_of_int (gp_tileSize self) * res)) (\<lambda>qw.
      bind_r (py_truediv (gp_ymax self - gp_ymin self) (real_of_int (gp_tileSize self) * res)) (\<lambda>qh.
        let w = \<lceil>qw\<rceil>; h = \<lceil>qh\<rceil> in
        insert_row True ''gpkg_tile_matrix''
          [''table_name'', ''zoom_level'', ''matrix_width'', ''matrix_height'',
           ''tile_width'', ''tile_height'', ''pixel_x_size'', ''pixel_y_size'']
          [[0, 1]]
          [SqlText ''gpkg_tiles'', SqlInt (int level), SqlInt w, SqlInt h,
           SqlInt (gp_tileSize self), SqlInt (gp_tileSize self), SqlReal res, SqlReal res] d)))"

definition insertTileMatrixSet :: "GeoPackage \<Rightarrow> filesystem \<Rightarrow> (py_error + unit) \<times> filesystem" where
  "insertTileMatrixSet self fs =
     transaction (dbPath self)
       ( insert_row True ''gpkg_tile_matrix_set''
           [''table_name'', ''srs_id'', ''min_x'', ''min_y'', ''max_x'', ''max_y'']
           [[0]]
           [SqlText ''gpkg_tiles'', SqlInt (code self), SqlReal (gp_xmin self),
            SqlReal (gp_ymin self), SqlReal (gp_xmax self), SqlReal (gp_ymax self)]
         # map (tile_matrix_stmt self) (enumerate 0 (gp_resolutions self)) ) fs"


text \<open>Sequencing of calls that may raise and that change the file system.\<close>

definition and_then ::
  "(py_error + 'a) \<times> 's \<Rightarrow> ('a \<Rightarrow> 's \<Rightarrow> (py_error + 'b) \<times> 's) \<Rightarrow> (py_error + 'b) \<times> 's" where
  "and_then m f = (case m of (Inl e, s) \<Rightarrow> (Inl e, s) | (Inr v, s) \<Rightarrow> f v s)"

text \<open>
  The constructor. A store that passes \<^verbatim>\<open>isGPKG\<close> is used as it is; in every other case
  that does not raise, \<^verbatim>\<open>create\<close> and the inserts run on whatever is at the path.
\<close>

definition GeoPackage_attrs ::
  "string \<Rightarrow> string \<Rightarrow> int \<Rightarrow> TileMatrix \<Rightarrow> real list \<Rightarrow> GeoPackage" where
  "GeoPackage_attrs path a code' tm resLst =
     \<lparr> dbPath = path, name = splitext_root (basename path),
       auth = a, code = code', gp_tileSize = tileSize tm,
       gp_xmin = xmin tm, gp_ymin = ymin tm, gp_xmax = xmax tm, gp_ymax = ymax tm,
       gp_resolutions = resLst \<rparr>"

definition GeoPackage_init ::
  "string \<Rightarrow> TileMatrix \<Rightarrow> filesystem \<Rightarrow> (py_error + GeoPackage) \<times> filesystem" where
  "GeoPackage_init path tm fs =
     (case py_split (CHR '':'') (CRS tm) of
        [a, c] \<Rightarrow>
          (case py_int c of
             Inl e \<Rightarrow> (Inl e, fs)
           | Inr code' \<Rightarrow>
               (case getResList tm of
                  Inl e \<Rightarrow> (Inl e, fs)
                | Inr resLst \<Rightarrow>
                    (let self = GeoPackage_attrs path a code' tm resLst
                     in case isGPKG self fs of
                          Inl e \<Rightarrow> (Inl e, fs)
                        | Inr True \<Rightarrow> (Inr self, fs)
                        | Inr False \<Rightarrow>
                            and_then (create self fs) (\<lambda>_ fs1.
                            and_then (insertMetadata self fs1) (\<lambda>_ fs2.
                            and_then (insertCRS self (code self) (py_str (code self)) (auth self) [] fs2)
                              (\<lambda>_ fs3.
                            and_then (insertTileMatrixSet self fs3) (\<lambda>_ fs4. (Inr self, fs4))))))))
      | _ \<Rightarrow> (Inl ValueError, fs))"

definition same_key :: "int \<Rightarrow> int \<Rightarrow> int \<Rightarrow> tile_rec \<Rightarrow> bool" where
  "same_key x y z r = (zoom_level r = z \<and> tile_column r = x \<and> tile_row r = y)"

text \<open>\<^verbatim>\<open>getTile(x, y, z)\<close> at local time \<open>now\<close> (seconds); \<^verbatim>\<open>timeDelta.days\<close> is the floor of
  the age in days.\<close>

definition GeoPackage_getTile ::
  "GeoPackage \<Rightarrow> int \<Rightarrow> int \<Rightarrow> int \<Rightarrow> int \<Rightarrow> filesystem \<Rightarrow> (py_error + bytes option) \<times> filesystem" where
  "GeoPackage_getTile self now x y z fs =
     and_then (connect fs (dbPath self)) (\<lambda>db fs'.
       if \<not> has_columns db ''gpkg_tiles''
              [''tile_data'', ''last_modified'', ''zoom_level'', ''tile_column'', ''tile_row'']
       then (Inl OperationalError, fs')
       else
         (case find (same_key x y z) (gpkg_tiles db) of
            None \<Rightarrow> (Inr None, fs')
          | Some result \<Rightarrow>
              (let timeDelta_days = (now - last_modified result) div 86400
               in if timeDelta_days > MAX_DAYS then (Inr None, fs')
                  else (Inr (Some (tile_data result)), fs'))))"

text \<open>
  One \<^verbatim>\<open>INSERT OR REPLACE INTO gpkg_tiles\<close>: the row with the same (zoom, column, row) is
  deleted and the new row gets the time of the insert. The column \<^verbatim>\<open>tile_data\<close> is
  \<^verbatim>\<open>NOT NULL\<close>, so \<^verbatim>\<open>None\<close> as data raises IntegrityError.
\<close>

definition insert_tile :: "int \<Rightarrow> int \<times> int \<times> int \<times> bytes option \<Rightarrow> database \<Rightarrow> py_error + database" where
  "insert_tile now t d =
     (case t of (x, y, z, data) \<Rightarrow>
        if \<not> has_columns d ''gpkg_tiles''
               [''tile_column'', ''tile_row'', ''zoom_level'', ''tile_data'']
        then Inl OperationalError
        else
          (case data of
             None \<Rightarrow> Inl IntegrityError
           | Some b \<Rightarrow>
               Inr (d\<lparr>gpkg_tiles :=
                      filter (\<lambda>r. \<not> same_key x y z r) (gpkg_tiles d)
                      @ [\<lparr> zoom_level = z, tile_column = x, tile_row = y,
                            tile_data = b, last_modified = now \<rparr>]\<rparr>)))"

definition GeoPackage_putTile ::
  "GeoPackage \<Rightarrow> int \<Rightarrow> int \<Rightarrow> int \<Rightarrow> int \<Rightarrow> bytes option \<Rightarrow> filesystem \<Rightarrow> (py_error + unit) \<times> filesystem" where
  "GeoPackage_putTile self now x y z data fs =
     transaction (dbPath self) [insert_tile now (x, y, z, data)] fs"

text \<open>
  \<^verbatim>\<open>getTiles(tiles)\<close>: unpacking \<^verbatim>\<open>zip(*tiles)\<close> into three names raises ValueError for
  an empty list. The query filters each of the three columns by its own \<^verbatim>\<open>IN\<close> list and
  selects no timestamp.
\<close>

definition GeoPackage_getTiles ::
  "GeoPackage \<Rightarrow> (int \<times> int \<times> int) list \<Rightarrow> filesystem
     \<Rightarrow> (py_error + (int \<times> int \<times> int \<times> bytes) list) \<times> filesystem" where
  "GeoPackage_getTiles self tiles fs =
     (if tiles = [] then (Inl ValueError, fs)
      else
        (let xs = map fst tiles; ys = map (fst \<circ> snd) tiles; zs = map (snd \<circ> snd) tiles in
         and_then (connect fs (dbPath self)) (\<lambda>db fs'.
           if \<not> has_columns db ''gpkg_tiles''
                  [''tile_column'', ''tile_row'', ''zoom_level'', ''tile_data'']
           then (Inl OperationalError, fs')
           else
             (Inr (map (\<lambda>r. (tile_column r, tile_row r, zoom_level r, tile_data r))
                       (filter (\<lambda>r. tile_column r \<in> set xs \<and> tile_row r \<in> set ys
                                      \<and> zoom_level r \<in> set zs)
                               (gpkg_tiles db))), fs'))))"

text \<open>\<^verbatim>\<open>putTiles(tiles)\<close>: \<^verbatim>\<open>executemany\<close> in one transaction, committed at the end.\<close>

definition GeoPackage_putTiles ::
  "GeoPackage \<Rightarrow> int \<Rightarrow> (int \<times> int \<times> int \<times> bytes option) list \<Rightarrow> filesystem
     \<Rightarrow> (py_error + unit) \<times> filesystem" where
  "GeoPackage_putTiles self now tiles fs =
     transaction (dbPath self) (map (insert_tile now) tiles) fs"

text \<open>The batch calls written as sequences of single calls, for comparison.\<close>

fun getTile_each ::
  "GeoPackage \<Rightarrow> int \<Rightarrow> (int \<times> int \<times> int) list \<Rightarrow> filesystem
     \<Rightarrow> (py_error + (int \<times> int \<times> int \<times> bytes) list) \<times> filesystem" where
  "getTile_each self now [] fs = (Inr [], fs)"
| "getTile_each self now ((x, y, z) # ts) fs =
     and_then (GeoPackage_getTile self now x y z fs) (\<lambda>data fs1.
     and_then (getTile_each self now ts fs1) (\<lambda>rest fs2.
       (Inr ((case data of None \<Rightarrow> [] | Some b \<Rightarrow> [(x, y, z, b)]) @ rest), fs2)))"

fun putTile_each ::
  "GeoPackage \<Rightarrow> int \<Rightarrow> (int \<times> int \<times> int \<times> bytes option) list \<Rightarrow> filesystem
     \<Rightarrow> (py_error + unit) \<times> filesystem" where
  "putTile_each self now [] fs = (Inr (), fs)"
| "putTile_each self now ((x, y, z, data) # ts) fs =
     and_then (GeoPackage_putTile self now x y z data fs) (\<lambda>_ fs1. putTile_each self now ts fs1)"


text \<open>The five tables of the default schema, and a database none of whose names is taken.\<close>

definition gpkg_schema :: "(string \<times> string list) list" where
  "gpkg_schema =
     [ (''gpkg_contents'',
         [''table_name'', ''data_type'', ''identifier'', ''description'', ''last_change'',
          ''min_x'', ''min_y'', ''max_x'', ''max_y'', ''srs_id'']),
       (''gpkg_spatial_ref_sys'',
         [''srs_name'', ''srs_id'', ''organization'', ''organization_coordsys_id'',
          ''definition'', ''description'']),
       (''gpkg_tile_matrix_set'',
         [''table_name'', ''srs_id'', ''min_x'', ''min_y'', ''max_x'', ''max_y'']),
       (''gpkg_tile_matrix'',
         [''table_name'', ''zoom_level'', ''matrix_width'', ''matrix_height'',
          ''tile_width'', ''tile_height'', ''pixel_x_size'', ''pixel_y_size'']),
       (''gpkg_tiles'',
         [''id'', ''zoom_level'', ''tile_column'', ''tile_row'', ''tile_data'',
          ''last_modified'']) ]"

definition fresh_tables :: "database \<Rightarrow> bool" where
  "fresh_tables d =
     list_all (\<lambda>t. map_of (schema d) t = None \<and> \<not> list_ex (\<lambda>r. fst r = t) (meta_rows d))
       (map fst gpkg_schema)"

text \<open>
  Sample data: the store of the three-level grid as the constructor creates it on an
  empty disk, the same store holding one tile written at time 0, a database of another
  application, and a file that is not a database.
\<close>

definition png :: bytes where
  "png = [137, 80, 78, 71, 13, 10, 26, 10]"

definition cachePath :: string where
  "cachePath = ''/cache/SRC_LAY_WM.gpkg''"

definition store3 :: GeoPackage where
  "store3 = \<lparr> dbPath = cachePath, name = ''SRC_LAY_WM'',
               auth = ''EPSG'', code = 3857, gp_tileSize = 256,
               gp_xmin = 0, gp_ymin = 0, gp_xmax = 1024, gp_ymax = 1024,
               gp_resolutions = [4, 2, 1] \<rparr>"

definition gpkg3 :: database where
  "gpkg3 =
     \<lparr> application_id = 1196437808,
       schema = gpkg_schema,
       meta_rows =
         [(''gpkg_contents'',
           [SqlText ''gpkg_tiles'', SqlText ''tiles'', SqlText ''SRC_LAY_WM'',
            SqlText ''Created with BlenderGIS'',
            SqlReal 0, SqlReal 0, SqlReal 1024, SqlReal 1024, SqlInt 3857]),
          (''gpkg_spatial_ref_sys'',
           [SqlInt 3857, SqlText ''EPSG'', SqlInt 3857, SqlText ''3857'', SqlText []]),
          (''gpkg_tile_matrix_set'',
           [SqlText ''gpkg_tiles'', SqlInt 3857, SqlReal 0, SqlReal 0, SqlReal 1024, SqlReal 1024]),
          (''gpkg_tile_matrix'',
           [SqlText ''gpkg_tiles'', SqlInt 0, SqlInt 1, SqlInt 1, SqlInt 256, SqlInt 256,
            SqlReal 4, SqlReal 4]),
          (''gpkg_tile_matrix'',
           [SqlText ''gpkg_tiles'', SqlInt 1, SqlInt 2, SqlInt 2, SqlInt 256, SqlInt 256,
            SqlReal 2, SqlReal 2]),
          (''gpkg_tile_matrix'',
           [SqlText ''gpkg_tiles'', SqlInt 2, SqlInt 4, SqlInt 4, SqlInt 256, SqlInt 256,
            SqlReal 1, SqlReal 1])],
       gpkg_tiles = [] \<rparr>"

definition gpkg3_tile :: database where
  "gpkg3_tile =
     gpkg3\<lparr>gpkg_tiles := [\<lparr> zoom_level = 1, tile_column = 1, tile_row = 1,
                                tile_data = png, last_modified = 0 \<rparr>]\<rparr>"

definition other_app :: database where
  "other_app =
     \<lparr> application_id = 0,
       schema = [(''notes'', [''id'', ''body''])],
       meta_rows = [(''notes'', [SqlInt 1, SqlText ''keep'']) ],
       gpkg_tiles = [] \<rparr>"

definition keys50 :: "(int \<times> int \<times> int) list" where
  "keys50 = map (\<lambda>i. (int i, int i + 1, 1)) [0..<50]"

section \<open>Images\<close>

text \<open>
  A PIL image: its size and its pixels. \<^verbatim>\<open>Image.new(mode, size, None)\<close> leaves the pixels
  uninitialised; a colour name fills them.
\<close>

datatype pixel = Uninitialised | Named string | RGBA nat nat nat nat

record image =
  img_w :: int
  img_h :: int
  pixel_at :: "int \<times> int \<Rightarrow> pixel"

definition Image_new :: "int \<Rightarrow> int \<Rightarrow> pixel \<Rightarrow> py_error + image" where
  "Image_new w h colour =
     (if w < 0 \<or> h < 0 then Inl ValueError
      else Inr \<lparr> img_w = w, img_h = h, pixel_at = (\<lambda>_. colour) \<rparr>)"

text \<open>\<^verbatim>\<open>mosaic.paste(img, (posx, posy))\<close>: the pixels of \<open>img\<close> replace those under it.\<close>

definition paste :: "image \<Rightarrow> image \<Rightarrow> int \<times> int \<Rightarrow> image" where
  "paste mosaic img pos =
     mosaic\<lparr>pixel_at := (\<lambda>(x, y).
        if fst pos \<le> x \<and> x < fst pos + img_w img \<and> snd pos \<le> y \<and> y < snd pos + img_h img
        then pixel_at img (x - fst pos, y - snd pos)
        else pixel_at mosaic (x, y))\<rparr>"

record GeoImage =
  geo_img :: image
  geo_ul :: "real \<times> real"
  geo_res :: real


section \<open>MapService\<close>

text \<open>
  What lies outside the program: the tile server, the image library, the reprojection
  library and the clock. \<open>web\<close> is the body the server sends for the URL that
  \<^verbatim>\<open>buildUrl\<close> makes of a layer and a tile (the text of the URL is not modelled), \<open>None\<close>
  when the request fails; \<open>Image_open\<close> is \<open>None\<close> when \<^verbatim>\<open>Image.open\<close> raises.
\<close>

record env =
  web :: "string \<Rightarrow> int \<Rightarrow> int \<Rightarrow> int \<Rightarrow> bytes option"
  imghdr_what :: "bytes \<Rightarrow> string option"
  Image_open :: "bytes \<Rightarrow> image option"
  save_png :: "image \<Rightarrow> bytes"
  reprojBbox ::
    "string \<Rightarrow> string \<Rightarrow> real \<times> real \<times> real \<times> real \<Rightarrow> py_error + real \<times> real \<times> real \<times> real"
  reprojImg ::
    "string \<Rightarrow> string \<Rightarrow> GeoImage \<Rightarrow> (real \<times> real) option \<Rightarrow> (int \<times> int) option \<Rightarrow> real option
       \<Rightarrow> py_error + GeoImage"
  clock :: int

text \<open>
  The attributes of a \<^verbatim>\<open>MapService\<close> that its methods leave alone. The constructor copies
  the keys of the source definition onto the object, so an attribute \<^verbatim>\<open>zoom\<close> exists only
  if the definition has a key of that name (\<open>zoom_attr\<close>; the documented keys are name,
  description, service, grid, matrix, quadTree, layers, urlTemplate and referer).
  \<^verbatim>\<open>dstGridKey\<close> and \<^verbatim>\<open>dstTms\<close> are set together by \<^verbatim>\<open>setDstGrid\<close>: both or neither.
\<close>

record MapService =
  srckey :: string
  layers :: "string list"
  srcGridKey :: string
  srcTms :: TileMatrix
  dstGrid :: "(string \<times> TileMatrix) option"
  cacheFolder :: string
  zoom_attr :: "int option"

datatype io_event =
    HttpGet string int int int
  | CacheOpen string
  | CacheGet string int int int
  | CacheGetMany string "(int \<times> int \<times> int) list"
  | CachePut string int int int
  | CachePutMany string "(int \<times> int \<times> int) list"

text \<open>
  What the methods read and change: the disk, the dictionary of open caches, the
  progress counters, the \<^verbatim>\<open>running\<close> flag, and the input and output done so far.
\<close>

record world =
  disk :: filesystem
  caches :: "(string \<times> GeoPackage) list"
  running :: bool
  nbTiles :: int
  cptTiles :: int
  io_log :: "io_event list"

definition did :: "io_event \<Rightarrow> world \<Rightarrow> world" where
  "did e w = w\<lparr>io_log := io_log w @ [e]\<rparr>"

definition select_tms :: "MapService \<Rightarrow> bool \<Rightarrow> py_error + string \<times> TileMatrix" where
  "select_tms self toDstGrid =
     (if toDstGrid then
        (case dstGrid self of
           Some (grdkey, tm) \<Rightarrow> Inr (grdkey, tm)
         | None \<Rightarrow> Inl ValueError)
      else Inr (srcGridKey self, srcTms self))"

definition getCache :: "MapService \<Rightarrow> string \<Rightarrow> bool \<Rightarrow> world \<Rightarrow> (py_error + GeoPackage) \<times> world" where
  "getCache self laykey useDstGrid w =
     (case select_tms self useDstGrid of
        Inl e \<Rightarrow> (Inl e, w)
      | Inr (grdkey, tm) \<Rightarrow>
          (let mapKey = srckey self @ ''_'' @ laykey @ ''_'' @ grdkey in
           case map_of (caches w) mapKey of
             Some cache \<Rightarrow> (Inr cache, w)
           | None \<Rightarrow>
               (let dbPath' = cacheFolder self @ mapKey @ ''.gpkg'' in
                case GeoPackage_init dbPath' tm (disk (did (CacheOpen dbPath') w)) of
                  (Inl e, fs) \<Rightarrow> (Inl e, (did (CacheOpen dbPath') w)\<lparr>disk := fs\<rparr>)
                | (Inr gp, fs) \<Rightarrow>
                    (Inr gp, (did (CacheOpen dbPath') w)
                               \<lparr>disk := fs, caches := (mapKey, gp) # caches w\<rparr>))))"

text \<open>
  \<^verbatim>\<open>downloadTile\<close>: \<^verbatim>\<open>buildUrl\<close> looks the layer up (KeyError for an unknown key) outside
  the \<^verbatim>\<open>try\<close>; a failed request and a body that is no image both give \<^verbatim>\<open>None\<close>.
\<close>

definition downloadTile ::
  "MapService \<Rightarrow> env \<Rightarrow> string \<Rightarrow> int \<Rightarrow> int \<Rightarrow> int \<Rightarrow> world \<Rightarrow> (py_error + bytes option) \<times> world" where
  "downloadTile self e laykey col row zoom w =
     (if laykey \<notin> set (layers self) then (Inl KeyError, w)
      else
        (case web e laykey col row zoom of
           None \<Rightarrow> (Inr None, did (HttpGet laykey col row zoom) w)
         | Some data \<Rightarrow>
             (if imghdr_what e data = None then (Inr None, did (HttpGet laykey col row zoom) w)
              else (Inr (Some data), did (HttpGet laykey col row zoom) w))))"

text \<open>\<^verbatim>\<open>dd2meters\<close> of \<^verbatim>\<open>geoscene/proj.py\<close>: one degree is the equatorial perimeter of GRS80 / 360.\<close>

definition GRS80_perimeter :: real where
  "GRS80_perimeter = 2 * pi * 6378137"

definition dd2meters :: "real \<Rightarrow> real" where
  "dd2meters dst = dst * (GRS80_perimeter / 360)"

definition meters2dd :: "real \<Rightarrow> real" where
  "meters2dd dst = dst / (GRS80_perimeter / 360)"

text \<open>The cache methods as the service calls them, with the call written to the log.\<close>

definition cache_getTile ::
  "GeoPackage \<Rightarrow> env \<Rightarrow> int \<Rightarrow> int \<Rightarrow> int \<Rightarrow> world \<Rightarrow> (py_error + bytes option) \<times> world" where
  "cache_getTile cache e x y z w =
     (case GeoPackage_getTile cache (clock e) x y z (disk w) of
        (r, fs) \<Rightarrow> (r, (did (CacheGet (dbPath cache) x y z) w)\<lparr>disk := fs\<rparr>))"

definition cache_putTile ::
  "GeoPackage \<Rightarrow> env \<Rightarrow> int \<Rightarrow> int \<Rightarrow> int \<Rightarrow> bytes option \<Rightarrow> world \<Rightarrow> (py_error + unit) \<times> world" where
  "cache_putTile cache e x y z data w =
     (case GeoPackage_putTile cache (clock e) x y z data (disk w) of
        (r, fs) \<Rightarrow> (r, (did (CachePut (dbPath cache) x y z) w)\<lparr>disk := fs\<rparr>))"

definition cache_getTiles ::
  "GeoPackage \<Rightarrow> (int \<times> int \<times> int) list \<Rightarrow> world
     \<Rightarrow> (py_error + (int \<times> int \<times> int \<times> bytes) list) \<times> world" where
  "cache_getTiles cache tiles w =
     (case GeoPackage_getTiles cache tiles (disk w) of
        (r, fs) \<Rightarrow> (r, (did (CacheGetMany (dbPath cache) tiles) w)\<lparr>disk := fs\<rparr>))"

definition cache_putTiles ::
  "GeoPackage \<Rightarrow> env \<Rightarrow> (int \<times> int \<times> int \<times> bytes option) list \<Rightarrow> world \<Rightarrow> (py_error + unit) \<times> world" where
  "cache_putTiles cache e tiles w =
     (case GeoPackage_putTiles cache (clock e) tiles (disk w) of
        (r, fs) \<Rightarrow> (r, (did (CachePutMany (dbPath cache) (map (\<lambda>(x, y, z, d). (x, y, z)) tiles)) w)
                        \<lparr>disk := fs\<rparr>))"

text \<open>
  The part of \<^verbatim>\<open>getTile\<close> that builds a tile of the destination grid from a mosaic of the
  source grid. \<open>mosaic\<close> stands for the method \<^verbatim>\<open>getImage\<close>, with its parameters in
  the order laykey, bbox, zoom, toDstGrid, useCache, nbThread, cpt, outCRS,
  allowEmptyTile. The module imports \<^verbatim>\<open>dd2meters\<close> from \<^verbatim>\<open>geoscene.proj\<close> and not
  \<^verbatim>\<open>meters2dd\<close>, and defines no function of that name: calling it raises NameError.
  \<^verbatim>\<open>getNearestZoom\<close> returning \<^verbatim>\<open>None\<close> makes the next \<^verbatim>\<open>getRes\<close> raise TypeError.
\<close>

type_synonym bbox = "real \<times> real \<times> real \<times> real"

type_synonym getImage_type =
  "string \<Rightarrow> bbox \<Rightarrow> int \<Rightarrow> bool \<Rightarrow> bool \<Rightarrow> int \<Rightarrow> bool \<Rightarrow> string option \<Rightarrow> bool \<Rightarrow> world
     \<Rightarrow> (py_error + GeoImage option) \<times> world"

type_synonym getTile_type =
  "string \<Rightarrow> int \<Rightarrow> int \<Rightarrow> int \<Rightarrow> bool \<Rightarrow> bool \<Rightarrow> world \<Rightarrow> (py_error + bytes option) \<times> world"

definition lift_r :: "py_error + 'a \<Rightarrow> 's \<Rightarrow> (py_error + 'a) \<times> 's" where
  "lift_r r w = (r, w)"

definition reprojectedTile ::
  "getImage_type \<Rightarrow> MapService \<Rightarrow> env \<Rightarrow> TileMatrix \<Rightarrow> string \<Rightarrow> int \<Rightarrow> int \<Rightarrow> int \<Rightarrow> world
     \<Rightarrow> (py_error + bytes option) \<times> world" where
  "reprojectedTile mosaic self e dstTms laykey col row zoom w =
     and_then (lift_r (getTileBbox dstTms col row zoom) w) (\<lambda>bbox w.
     and_then (lift_r (getRes dstTms zoom) w) (\<lambda>res w.
     and_then (lift_r
        (if units dstTms = ''degrees'' \<and> units (srcTms self) = ''meters'' then Inr (dd2meters res)
         else if units (srcTms self) = ''degrees'' \<and> units dstTms = ''meters'' then Inl NameError
         else Inr res) w) (\<lambda>res2 w.
     and_then (lift_r (getNearestZoom (srcTms self) res2 ''closer'') w) (\<lambda>zoom' w.
     and_then (lift_r
        (case zoom' of
           None \<Rightarrow> Inl TypeError
         | Some z \<Rightarrow> bind_r (getRes (srcTms self) (int z)) (\<lambda>res'. Inr (int z))) w) (\<lambda>zoom'' w.
       case reprojBbox e (CRS dstTms) (CRS (srcTms self)) bbox of
         Inl err \<Rightarrow> (Inr None, w)
       | Inr bbox' \<Rightarrow>
           and_then (mosaic laykey bbox' zoom'' False False 4 False None False w) (\<lambda>m w.
             case m of
               None \<Rightarrow> (Inr None, w)
             | Some geoimg \<Rightarrow>
                 (case bbox of (xmin', ymin', xmax', ymax') \<Rightarrow>
                    and_then (lift_r
                       (reprojImg e (CRS (srcTms self)) (CRS dstTms) geoimg
                          (Some (xmin', ymax'))
                          (Some (tileSize dstTms, tileSize dstTms)) (Some res)) w)
                      (\<lambda>img' w. (Inr (Some (save_png e (geo_img img'))), w)))))))))"

fun outside_extent :: "TileMatrix \<Rightarrow> real \<Rightarrow> real \<Rightarrow> bool" where
  "outside_extent tm x y =
     (\<not> (xmin tm \<le> x \<and> x < xmax tm) \<or> \<not> (ymin tm < y \<and> y \<le> ymax tm))"

text \<open>
  \<^verbatim>\<open>getTile\<close>. The write to the cache reads \<^verbatim>\<open>self.zoom\<close>, not the parameter \<^verbatim>\<open>zoom\<close>:
  AttributeError when the object has no such attribute.
\<close>

definition getTile_with ::
  "getImage_type \<Rightarrow> MapService \<Rightarrow> env \<Rightarrow> getTile_type" where
  "getTile_with mosaic self e laykey col row zoom toDstGrid useCache w =
     (case select_tms self toDstGrid of
        Inl err \<Rightarrow> (Inl err, w)
      | Inr (grdkey, tm) \<Rightarrow>
          (case getTileCoords tm col row zoom of
             Inl err \<Rightarrow> (Inl err, w)
           | Inr (x, y) \<Rightarrow>
               if row < 0 \<or> col < 0 then (Inr None, w)
               else if outside_extent tm x y then (Inr None, w)
               else
                 and_then
                   (if useCache then
                      and_then (getCache self laykey toDstGrid w) (\<lambda>cache w.
                      and_then (cache_getTile cache e col row zoom w) (\<lambda>data w.
                        (Inr (Some cache,
                              (case data of
                                 None \<Rightarrow> None
                               | Some d \<Rightarrow> if imghdr_what e d \<noteq> None then Some d else None)), w)))
                    else (Inr (None, None), w))
                   (\<lambda>(cache, hit) w.
                      case hit of
                        Some data \<Rightarrow> (Inr (Some data), w)
                      | None \<Rightarrow>
                          and_then
                            (if \<not> toDstGrid then downloadTile self e laykey col row zoom w
                             else reprojectedTile mosaic self e tm laykey col row zoom w)
                            (\<lambda>data w.
                               case (cache, data) of
                                 (Some cache', Some d) \<Rightarrow>
                                   (case zoom_attr self of
                                      None \<Rightarrow> (Inl AttributeError, w)
                                    | Some self_zoom \<Rightarrow>
                                        and_then (cache_putTile cache' e col row self_zoom (Some d) w)
                                          (\<lambda>_ w. (Inr data, w)))
                               | _ \<Rightarrow> (Inr data, w)))))"

text \<open>
  The worker threads of \<^verbatim>\<open>getTiles\<close>, in one of their interleavings: the jobs are taken in
  queue order. A worker stops when the service is not running; a worker whose
  \<^verbatim>\<open>getTile\<close> raises dies with its job, and with no worker left the remaining jobs stay
  in the queue. \<open>alive\<close> is the number of workers still running.
\<close>

fun downloading ::
  "getTile_type \<Rightarrow> string \<Rightarrow> bool \<Rightarrow> bool \<Rightarrow> nat \<Rightarrow> (int \<times> int \<times> int) list
     \<Rightarrow> (int \<times> int \<times> int \<times> bytes option) list \<Rightarrow> world
     \<Rightarrow> (int \<times> int \<times> int \<times> bytes option) list \<times> world" where
  "downloading getTile laykey toDstGrid cpt alive [] tilesData w = (tilesData, w)"
| "downloading getTile laykey toDstGrid cpt alive ((col, row, zoom) # jobs) tilesData w =
     (if alive = 0 then (tilesData, w)
      else if \<not> running w then (tilesData, w)
      else
        (case getTile laykey col row zoom toDstGrid False w of
           (Inl err, w') \<Rightarrow> downloading getTile laykey toDstGrid cpt (alive - 1) jobs tilesData w'
         | (Inr data, w') \<Rightarrow>
             downloading getTile laykey toDstGrid cpt alive jobs
               (tilesData @ [(col, row, zoom, data)])
               (if cpt then w'\<lparr>cptTiles := cptTiles w' + 1\<rparr> else w')))"

definition getTiles_with ::
  "getTile_type \<Rightarrow> MapService \<Rightarrow> env \<Rightarrow> string \<Rightarrow> (int \<times> int \<times> int) list
     \<Rightarrow> (int \<times> int \<times> int \<times> bytes option) list \<Rightarrow> bool \<Rightarrow> bool \<Rightarrow> int \<Rightarrow> bool \<Rightarrow> world
     \<Rightarrow> (py_error + (int \<times> int \<times> int \<times> bytes option) list) \<times> world" where
  "getTiles_with getTile self e laykey tiles tilesData toDstGrid useCache nbThread cpt w =
     (let w = (if cpt then w\<lparr>nbTiles := int (length tiles), cptTiles := 0\<rparr> else w) in
      and_then
        (if useCache then
           and_then (getCache self laykey toDstGrid w) (\<lambda>cache w.
           and_then (cache_getTiles cache tiles w) (\<lambda>result w.
             (Inr (Some cache, result,
                   filter (\<lambda>t. t \<notin> set (map (\<lambda>(x, y, z, d). (x, y, z)) result)) tiles),
              (if cpt then w\<lparr>cptTiles := cptTiles w + int (length result)\<rparr> else w))))
         else (Inr (None, [], tiles), w))
        (\<lambda>(cache, result, missing) w.
           and_then
             (if length missing > 0 then
                (case downloading getTile laykey toDstGrid cpt (nat nbThread) missing tilesData w of
                   (tilesData', w) \<Rightarrow>
                     (case cache of
                        Some cache' \<Rightarrow>
                          and_then (cache_putTiles cache' e
                                      (filter (\<lambda>t. snd (snd (snd t)) \<noteq> None) tilesData') w)
                            (\<lambda>_ w. (Inr tilesData', w))
                      | None \<Rightarrow> (Inr tilesData', w)))
              else (Inr tilesData, w))
             (\<lambda>tilesData' w.
                (Inr (tilesData' @ (if useCache then map (\<lambda>(x, y, z, d). (x, y, z, Some d)) result
                                    else [])),
                 (if cpt then w\<lparr>nbTiles := 0, cptTiles := 0\<rparr> else w)))))"

text \<open>
  The loop of \<^verbatim>\<open>getImage\<close> that pastes the tiles into the mosaic; \<open>None\<close> is its
  \<^verbatim>\<open>return None\<close>.
\<close>

fun pasteTiles ::
  "env \<Rightarrow> bool \<Rightarrow> bool \<Rightarrow> int \<Rightarrow> int \<Rightarrow> int \<Rightarrow> (int \<times> int \<times> int \<times> bytes option) list \<Rightarrow> image
     \<Rightarrow> py_error + image option" where
  "pasteTiles e run allowEmptyTile tileSize' firstCol firstRow [] mosaic = Inr (Some mosaic)"
| "pasteTiles e run allowEmptyTile tileSize' firstCol firstRow ((col, row, z, data) # tiles) mosaic =
     (if \<not> run then Inr None
      else
        (case (case data of
                 None \<Rightarrow>
                   if allowEmptyTile then map_sum id Some (Image_new tileSize' tileSize' (Named ''lightgrey''))
                   else Inr None
               | Some d \<Rightarrow>
                   (case Image_open e d of
                      Some im \<Rightarrow> Inr (Some im)
                    | None \<Rightarrow>
                        if allowEmptyTile then map_sum id Some (Image_new tileSize' tileSize' (Named ''pink''))
                        else Inr None)) of
           Inl err \<Rightarrow> Inl err
         | Inr None \<Rightarrow> Inr None
         | Inr (Some im) \<Rightarrow>
             (let posx = (col - firstCol) * tileSize';
                  posy = \<bar>row - firstRow\<bar> * tileSize'
              in pasteTiles e run allowEmptyTile tileSize' firstCol firstRow tiles
                   (paste mosaic im (posx, posy)))))"

definition getImage_with ::
  "getTile_type \<Rightarrow> MapService \<Rightarrow> env \<Rightarrow> getImage_type" where
  "getImage_with getTile self e laykey bbox zoom toDstGrid useCache nbThread cpt outCRS allowEmptyTile w =
     (case select_tms self toDstGrid of
        Inl err \<Rightarrow> (Inl err, w)
      | Inr (grdkey, tm) \<Rightarrow>
          and_then (lift_r (getRes tm zoom) w) (\<lambda>res' w.
          case bbox of (xmin0, ymin', xmax', ymax0) \<Rightarrow>
          and_then (lift_r (getTileNumber tm xmin0 ymax0 zoom) w) (\<lambda>(firstCol, firstRow) w.
          and_then (lift_r (getTileCoords tm firstCol firstRow zoom) w) (\<lambda>(xmin', ymax') w.
          and_then (lift_r (py_truediv (xmax' - xmin') (real_of_int (tileSize tm) * res')) w) (\<lambda>qx w.
          and_then (lift_r (py_truediv (ymax' - ymin') (real_of_int (tileSize tm) * res')) w) (\<lambda>qy w.
            let nbTilesX = \<lceil>qx\<rceil>; nbTilesY = \<lceil>qy\<rceil>;
                cols = map (\<lambda>i. firstCol + i) (py_range nbTilesX);
                rows = (if originLoc tm = ''NW'' then map (\<lambda>i. firstRow + i) (py_range nbTilesY)
                        else map (\<lambda>i. firstRow - i) (py_range nbTilesY));
                img_w' = int (length cols) * tileSize tm;
                img_h' = int (length rows) * tileSize tm
            in
            and_then (lift_r (Image_new img_w' img_h' Uninitialised) w) (\<lambda>mosaic w.
            and_then (getTiles_with getTile self e laykey
                        (concat (map (\<lambda>c. map (\<lambda>r. (c, r, zoom)) rows) cols))
                        [] toDstGrid useCache nbThread cpt w) (\<lambda>tiles w.
            and_then (lift_r (pasteTiles e (running w) allowEmptyTile (tileSize tm)
                                firstCol firstRow tiles mosaic) w) (\<lambda>pasted w.
              case pasted of
                None \<Rightarrow> (Inr None, w)
              | Some mosaic' \<Rightarrow>
                  and_then
                    (lift_r
                       (if outCRS \<noteq> None \<and> outCRS \<noteq> Some (CRS tm)
                        then reprojImg e (CRS tm) (the outCRS)
                               \<lparr> geo_img = mosaic', geo_ul = (xmin', ymax'), geo_res = res' \<rparr> None None None
                        else Inr \<lparr> geo_img = mosaic', geo_ul = (xmin', ymax'), geo_res = res' \<rparr>) w)
                    (\<lambda>geoimg w. if running w then (Inr (Some geoimg), w) else (Inr None, w)))))))))))"

text \<open>
  The methods themselves. \<^verbatim>\<open>getTile\<close> calls \<^verbatim>\<open>getImage\<close> only for a tile of the
  destination grid, and then for a mosaic of the source grid, whose tiles are fetched by
  \<^verbatim>\<open>getTile\<close> with \<^verbatim>\<open>toDstGrid=False\<close>: the recursion is one call deep, and the mosaic
  function given to the inner \<^verbatim>\<open>getTile\<close> is never called.
\<close>

definition no_mosaic :: getImage_type where
  "no_mosaic laykey bbox zoom toDstGrid useCache nbThread cpt outCRS allowEmptyTile w = (Inr None, w)"

definition MapService_getTile :: "MapService \<Rightarrow> env \<Rightarrow> getTile_type" where
  "MapService_getTile self e =
     getTile_with (getImage_with (getTile_with no_mosaic self e) self e) self e"

definition MapService_getTiles ::
  "MapService \<Rightarrow> env \<Rightarrow> string \<Rightarrow> (int \<times> int \<times> int) list
     \<Rightarrow> (int \<times> int \<times> int \<times> bytes option) list \<Rightarrow> bool \<Rightarrow> bool \<Rightarrow> int \<Rightarrow> bool \<Rightarrow> world
     \<Rightarrow> (py_error + (int \<times> int \<times> int \<times> bytes option) list) \<times> world" where
  "MapService_getTiles self e = getTiles_with (MapService_getTile self e) self e"

definition MapService_getImage :: "MapService \<Rightarrow> env \<Rightarrow> getImage_type" where
  "MapService_getImage self e = getImage_with (MapService_getTile self e) self e"

text \<open>
  Sample data: a service on the three-level grid with one layer and no attribute
  \<^verbatim>\<open>zoom\<close>, a server that answers every request with the same PNG bytes, a sniffer that
  knows the PNG signature, and a world with an empty disk. A second service has a source
  grid in degrees and the three-level grid (in meters) as destination.
\<close>

definition svc3 :: MapService where
  "svc3 = \<lparr> srckey = ''SRC'', layers = [''LAY''], srcGridKey = ''WM'', srcTms = grid3,
             dstGrid = None, cacheFolder = ''/cache/'', zoom_attr = None \<rparr>"

definition env3 :: env where
  "env3 = \<lparr> web = (\<lambda>laykey col row zoom. Some png),
             imghdr_what = (\<lambda>b. case b of
                                   b1 # b2 # b3 # b4 # rest \<Rightarrow>
                                     if b1 = 137 \<and> b2 = 80 \<and> b3 = 78 \<and> b4 = 71
                                     then Some ''png'' else None
                                 | _ \<Rightarrow> None),
             Image_open = (\<lambda>b. None),
             save_png = (\<lambda>im. png),
             reprojBbox = (\<lambda>crs1 crs2 b. Inr b),
             reprojImg = (\<lambda>crs1 crs2 g out_ul out_size out_res. Inr g),
             clock = 0 \<rparr>"

definition world0 :: world where
  "world0 = \<lparr> disk = Map.empty, caches = [], running = True, nbTiles = 0, cptTiles = 0,
               io_log = [] \<rparr>"

definition gridDeg :: TileMatrix where
  "gridDeg = \<lparr> CRS = ''EPSG:4326'', tileSize = 256, originLoc = ''NW'',
               xmin = -180, ymin = -90, xmax = 180, ymax = 90,
               originx = -180, originy = 90,
               resolutions = None, resFactor = 2, initRes = 1, nbLevels = 4,
               units = ''degrees'' \<rparr>"

definition svcDeg :: MapService where
  "svcDeg = \<lparr> srckey = ''SRC'', layers = [''LAY''], srcGridKey = ''WGS84'', srcTms = gridDeg,
               dstGrid = Some (''WM'', grid3), cacheFolder = ''/cache/'', zoom_attr = None \<rparr>"

section \<open>Properties of the zoom/resolution series\<close>

lemma py_index_at_length: "py_index xs (int (length xs)) = Inl IndexError"
  by (simp add: py_index_def)

text \<open>
  C2. With an explicit resolutions list, \<^verbatim>\<open>getRes(zoom)\<close> for a zoom index at or past the
  length of the list does not return the last entry: the clamp \<^verbatim>\<open>if zoom > len: zoom = len\<close>
  leaves the index at \<open>len\<close>, one past the last entry, and the lookup raises IndexError.
\<close>

theorem getRes_beyond_list_raises:
  assumes "resolutions tm = Some rs" and "zoom \<ge> int (length rs)"
  shows "getRes tm zoom = Inl IndexError"
  using assms by (auto simp: getRes_def Let_def py_index_def)

theorem getRes_beyond_list_raises_witness:
  "getRes grid3 3 = Inl IndexError \<and> getRes grid3 7 = Inl IndexError
   \<and> getRes grid3 2 = Inr 1"
  using getRes_beyond_list_raises [of grid3 "[4, 2, 1]" 3]
        getRes_beyond_list_raises [of grid3 "[4, 2, 1]" 7]
  by (simp add: grid3_def getRes_def py_index_def)

lemma nearestLoop_step:
  assumes "z1 + 1 < length rs" and "rs ! z1 \<noteq> res" and "rs ! (z1 + 1) \<noteq> res"
    and "\<not> (rs ! z1 > res \<and> res > rs ! (z1 + 1))"
  shows "nearestLoop rs z1 res rule = nearestLoop rs (z1 + 1) res rule"
proof -
  have a: "\<not> z1 \<ge> length rs" "z1 \<noteq> length rs - 1" using assms(1) by arith+
  show ?thesis
    using assms(2-4) a by (subst nearestLoop.simps) (auto simp: Let_def)
qed

lemma nearestLoop_skip:
  assumes "z1 \<le> k" and "k < length rs"
    and "\<And>j. z1 \<le> j \<Longrightarrow> j < k \<Longrightarrow>
           rs ! j \<noteq> res \<and> rs ! (j + 1) \<noteq> res \<and> \<not> (rs ! j > res \<and> res > rs ! (j + 1))"
  shows "nearestLoop rs z1 res rule = nearestLoop rs k res rule"
  using assms
proof (induction "k - z1" arbitrary: z1)
  case 0
  then show ?case by simp
next
  case (Suc n)
  then have lt: "z1 < k" by simp
  have step: "nearestLoop rs z1 res rule = nearestLoop rs (z1 + 1) res rule"
    using Suc.prems(3) [of z1] lt Suc.prems(2) by (intro nearestLoop_step) auto
  have "nearestLoop rs (z1 + 1) res rule = nearestLoop rs k res rule"
    using Suc.hyps(2) lt Suc.prems(2) Suc.prems(3)
    by (intro Suc.hyps(1)) auto
  with step show ?case by simp
qed

lemma nearestLoop_last:
  assumes "0 < length rs"
  shows "nearestLoop rs (length rs - 1) res rule = Some (length rs - 1)"
proof -
  have "\<not> length rs - 1 \<ge> length rs" using assms by arith
  then show ?thesis by (subst nearestLoop.simps) (auto simp: Let_def)
qed

lemma sorted_desc_nth: "sorted_wrt (\<ge>) (rs::real list) \<Longrightarrow> i \<le> j \<Longrightarrow> j < length rs \<Longrightarrow> rs ! j \<le> rs ! i"
  by (cases "i = j") (auto simp: sorted_wrt_iff_nth_less)

lemma nearestLoop_above_first:
  assumes "sorted_wrt (\<ge>) rs" and "0 < length rs" and "res > rs ! 0"
  shows "nearestLoop rs 0 res rule = Some (length rs - 1)"
proof -
  have all: "\<And>j. j < length rs \<Longrightarrow> rs ! j < res"
    using sorted_desc_nth [OF assms(1), of 0] assms(3) by fastforce
  have "nearestLoop rs 0 res rule = nearestLoop rs (length rs - 1) res rule"
  proof (rule nearestLoop_skip)
    fix j assume "j < length rs - 1"
    then show "rs ! j \<noteq> res \<and> rs ! (j + 1) \<noteq> res \<and> \<not> (rs ! j > res \<and> res > rs ! (j + 1))"
      using all [of j] all [of "j + 1"] by fastforce
  qed (use assms(2) in simp_all)
  then show ?thesis using nearestLoop_last [OF assms(2)] by simp
qed

text \<open>
  C10. For a grid whose resolution list (sorted descending, as the constructor leaves an
  explicit list) has at least two entries, a target resolution strictly coarser than the
  first entry makes \<^verbatim>\<open>getNearestZoom\<close> run to the end of the list and return the last index,
  the finest zoom level, whatever the rule.
\<close>

theorem getNearestZoom_above_coarsest:
  assumes "getResList tm = Inr rs" and "sorted_wrt (\<ge>) rs" and "2 \<le> length rs"
    and "res > rs ! 0"
  shows "getNearestZoom tm res rule = Inr (Some (length rs - 1))"
proof -
  have "0 < length rs" using assms(3) by (cases rs) simp_all
  then show ?thesis
    using assms(1) nearestLoop_above_first [OF assms(2) _ assms(4), of rule]
    by (simp add: getNearestZoom_def bind_r_def)
qed

theorem getNearestZoom_above_coarsest_witness:
  "getNearestZoom grid3 5 ''lower'' = Inr (Some 2)
   \<and> getNearestZoom grid3 5 ''higher'' = Inr (Some 2)
   \<and> getNearestZoom grid3 5 ''closer'' = Inr (Some 2)"
  using getNearestZoom_above_coarsest [of grid3 "[4, 2, 1]" 5 "''lower''"]
    getNearestZoom_above_coarsest [of grid3 "[4, 2, 1]" 5 "''higher''"]
    getNearestZoom_above_coarsest [of grid3 "[4, 2, 1]" 5 "''closer''"]
  by (simp add: grid3_def getResList_def)


lemma nearestLoop_first_exact:
  assumes "0 < length rs" and "rs ! 0 = res"
  shows "nearestLoop rs 0 res rule = Some 0"
  using assms by (subst nearestLoop.simps) (auto simp: Let_def)

lemma nearestLoop_next_exact:
  assumes "z1 + 1 < length rs" and "rs ! z1 \<noteq> res" and "rs ! (z1 + 1) = res"
  shows "nearestLoop rs z1 res rule = Some (z1 + 1)"
proof -
  have a: "\<not> z1 \<ge> length rs" "z1 \<noteq> length rs - 1" using assms(1) by arith+
  show ?thesis
    using assms(2,3) a by (subst nearestLoop.simps) (auto simp: Let_def)
qed

lemma nearestLoop_bracket:
  assumes "z1 + 1 < length rs" and "rs ! z1 > res" and "res > rs ! (z1 + 1)"
  shows "nearestLoop rs z1 res rule =
           Some (if rule = ''lower'' then z1 else if rule = ''higher'' then z1 + 1
                 else if rs ! z1 - res < res - rs ! (z1 + 1) then z1 else z1 + 1)"
proof -
  have a: "\<not> z1 \<ge> length rs" "z1 \<noteq> length rs - 1" using assms(1) by arith+
  show ?thesis
    using assms(2,3) a by (subst nearestLoop.simps) (auto simp: Let_def)
qed

lemma nearestLoop_exact:
  assumes "sorted_wrt (\<ge>) rs" and "z < length rs" and "\<And>j. j < z \<Longrightarrow> rs ! j \<noteq> rs ! z"
  shows "nearestLoop rs 0 (rs ! z) rule = Some z"
proof (cases z)
  case 0
  then show ?thesis using assms(2) nearestLoop_first_exact [of rs "rs ! 0" rule] by simp
next
  case (Suc k)
  have "nearestLoop rs 0 (rs ! z) rule = nearestLoop rs k (rs ! z) rule"
  proof (rule nearestLoop_skip)
    fix j assume j: "j < k"
    have "rs ! z \<le> rs ! (j + 1)"
      using sorted_desc_nth [OF assms(1), of "j + 1" z] j Suc assms(2) by simp
    moreover have "rs ! j \<noteq> rs ! z" "rs ! (j + 1) \<noteq> rs ! z"
      using assms(3) [of j] assms(3) [of "j + 1"] j Suc by simp_all
    ultimately show "rs ! j \<noteq> rs ! z \<and> rs ! (j + 1) \<noteq> rs ! z
        \<and> \<not> (rs ! j > rs ! z \<and> rs ! z > rs ! (j + 1))"
      by simp
  qed (use Suc assms(2) in simp_all)
  also have "\<dots> = Some (k + 1)"
    using assms(2) assms(3) [of k] Suc by (intro nearestLoop_next_exact) simp_all
  finally show ?thesis using Suc by simp
qed

lemma nearestLoop_between:
  assumes "sorted_wrt (\<ge>) rs" and "i + 1 < length rs" and "rs ! i > res" and "res > rs ! (i + 1)"
  shows "nearestLoop rs 0 res rule =
           Some (if rule = ''lower'' then i else if rule = ''higher'' then i + 1
                 else if rs ! i - res < res - rs ! (i + 1) then i else i + 1)"
proof -
  have "nearestLoop rs 0 res rule = nearestLoop rs i res rule"
  proof (rule nearestLoop_skip)
    fix j assume j: "j < i"
    have "rs ! i \<le> rs ! j" "rs ! i \<le> rs ! (j + 1)"
      using sorted_desc_nth [OF assms(1), of j i] sorted_desc_nth [OF assms(1), of "j + 1" i]
        j assms(2) by simp_all
    then show "rs ! j \<noteq> res \<and> rs ! (j + 1) \<noteq> res \<and> \<not> (rs ! j > res \<and> res > rs ! (j + 1))"
      using assms(3) by simp
  qed (use assms(2) in simp_all)
  then show ?thesis using nearestLoop_bracket [OF assms(2-4), of rule] by simp
qed

lemma map_r_nth:
  "map_r f xs = Inr ys \<Longrightarrow> length ys = length xs \<and> (\<forall>i<length xs. f (xs ! i) = Inr (ys ! i))"
proof (induction xs arbitrary: ys)
  case Nil
  then show ?case by simp
next
  case (Cons x xs)
  then show ?case
    by (auto split: sum.splits simp: nth_Cons split: nat.splits)
qed

lemma getRes_nth:
  assumes "getResList tm = Inr rs" and "z < length rs"
  shows "getRes tm (int z) = Inr (rs ! z)"
proof (cases "resolutions tm")
  case None
  let ?f = "\<lambda>zoom. bind_r (py_pow (resFactor tm) zoom) (\<lambda>p. py_truediv (initRes tm) p)"
  have m: "map_r ?f (py_range (nbLevels tm)) = Inr rs"
    using assms(1) None by (simp add: getResList_def)
  from map_r_nth [OF m] assms(2)
  have "?f (py_range (nbLevels tm) ! z) = Inr (rs ! z)" and "z < length (py_range (nbLevels tm))"
    by simp_all
  then show ?thesis using None by (simp add: getRes_def py_range_def)
next
  case (Some l)
  then show ?thesis using assms by (simp add: getRes_def getResList_def py_index_def)
qed

text \<open>
  C4 (as amended). For a grid whose resolution list is sorted descending:
  a target equal to a list entry returns the index of that entry (the first index holding
  the value; \<^verbatim>\<open>getRes\<close> of that index is the entry, so
  \<^verbatim>\<open>getNearestZoom(getRes(z), rule) = z\<close>); a target strictly between the adjacent entries
  \<open>i\<close> (coarser) and \<open>i + 1\<close> (finer) returns \<open>i\<close> under rule \<^verbatim>\<open>lower\<close>, \<open>i + 1\<close> under
  rule \<^verbatim>\<open>higher\<close>, and under any other rule (\<^verbatim>\<open>closer\<close>) the coarser index only when it is
  strictly closer: a distance tie goes to the finer index \<open>i + 1\<close>.
\<close>

theorem getNearestZoom_sorted:
  assumes "getResList tm = Inr rs" and "sorted_wrt (\<ge>) rs"
  shows "(z < length rs \<and> (\<forall>j<z. rs ! j \<noteq> rs ! z) \<longrightarrow>
            getRes tm (int z) = Inr (rs ! z) \<and> getNearestZoom tm (rs ! z) rule = Inr (Some z))
       \<and> (Suc i < length rs \<and> rs ! i > res \<and> res > rs ! Suc i \<longrightarrow>
            getNearestZoom tm res rule =
              Inr (Some (if rule = ''lower'' then i else if rule = ''higher'' then Suc i
                         else if rs ! i - res < res - rs ! Suc i then i else Suc i)))"
  using assms(1) getRes_nth [OF assms(1), of z]
    nearestLoop_exact [OF assms(2), of z rule] nearestLoop_between [OF assms(2), of i res rule]
  by (simp add: getNearestZoom_def bind_r_def)

theorem getNearestZoom_sorted_witness:
  "getNearestZoom grid3 2 ''closer'' = Inr (Some 1)
   \<and> getNearestZoom grid3 3 ''lower'' = Inr (Some 0)
   \<and> getNearestZoom grid3 3 ''higher'' = Inr (Some 1)
   \<and> getNearestZoom grid3 3 ''closer'' = Inr (Some 1)
   \<and> getNearestZoom grid3 (7/2) ''closer'' = Inr (Some 0)"
  using getNearestZoom_sorted [of grid3 "[4, 2, 1]" 1 "''closer''" 0 3]
    getNearestZoom_sorted [of grid3 "[4, 2, 1]" 1 "''lower''" 0 3]
    getNearestZoom_sorted [of grid3 "[4, 2, 1]" 1 "''higher''" 0 3]
    getNearestZoom_sorted [of grid3 "[4, 2, 1]" 1 "''closer''" 0 "7/2"]
  by (simp add: grid3_def getResList_def less_Suc_eq)

text \<open>
  The claim C4 as stated breaks the tie toward the coarser index. On the list
  \<open>[4, 2, 1]\<close> the target 3 is at distance 1 from both 4 (index 0) and 2 (index 1), and
  the code returns the finer index 1.
\<close>

theorem getNearestZoom_tie_counterexample:
  "getRes grid3 0 = Inr 4 \<and> getRes grid3 1 = Inr 2 \<and> (4::real) - 3 = 3 - 2
   \<and> getNearestZoom grid3 3 ''closer'' = Inr (Some 1)
   \<and> getNearestZoom grid3 3 ''closer'' \<noteq> Inr (Some 0)"
  by (simp add: grid3_def getRes_def py_index_def getNearestZoom_def getResList_def bind_r_def
        nearestLoop.simps)

text \<open>
  C5 (as amended). \<^verbatim>\<open>getFromToResFac(z1, z2)\<close> returns exactly 1 when \<open>z1 = z2\<close>, when
  moving up (\<open>z1 < z2\<close>) to a target \<open>z2 \<ge> nbLevels - 1\<close>, or when moving down (\<open>z1 > z2\<close>)
  to a target \<open>z2 \<le> 0\<close>; the guards include the in-range boundary levels \<open>nbLevels - 1\<close>
  and \<open>0\<close> themselves. In every other case it returns the ratio
  \<^verbatim>\<open>getRes(z2) / getRes(z1)\<close>, provided both lookups succeed and the divisor is not zero.
\<close>

theorem getFromToResFac_guarded:
  "(z1 = z2 \<or> (z1 < z2 \<and> nbLevels tm - 1 \<le> z2) \<or> (z2 < z1 \<and> z2 \<le> 0)
      \<longrightarrow> getFromToResFac tm z1 z2 = Inr 1)
   \<and> (z1 \<noteq> z2 \<and> \<not> (z1 < z2 \<and> nbLevels tm - 1 \<le> z2) \<and> \<not> (z2 < z1 \<and> z2 \<le> 0)
        \<and> getRes tm z2 = Inr b \<and> getRes tm z1 = Inr a \<and> a \<noteq> 0
      \<longrightarrow> getFromToResFac tm z1 z2 = Inr (b / a))"
  by (auto simp: getFromToResFac_def bind_r_def py_truediv_def)

theorem getFromToResFac_guarded_witness:
  "getFromToResFac grid3 0 2 = Inr 1 \<and> getFromToResFac grid3 2 0 = Inr 1
   \<and> getFromToResFac grid3 1 1 = Inr 1
   \<and> getFromToResFac grid3 0 1 = Inr (1 / 2) \<and> getFromToResFac grid3 2 1 = Inr 2"
  using getFromToResFac_guarded [of 0 2 grid3] getFromToResFac_guarded [of 2 0 grid3]
    getFromToResFac_guarded [of 1 1 grid3]
    getFromToResFac_guarded [of 0 1 grid3 2 4] getFromToResFac_guarded [of 2 1 grid3 2 1]
  by (simp add: grid3_def getRes_def py_index_def)

text \<open>
  The claim C5 as stated promises the ratio whenever both indices are inside
  \<open>[0, nbLevels - 1]\<close>. On the three-level grid, from level 0 to level 2 (both in range)
  the ratio is 1/4 and the code returns 1.
\<close>

theorem getFromToResFac_in_range_counterexample:
  "(0::int) \<le> 0 \<and> 0 \<le> nbLevels grid3 - 1 \<and> (0::int) \<le> 2 \<and> 2 \<le> nbLevels grid3 - 1
   \<and> getRes grid3 0 = Inr 4 \<and> getRes grid3 2 = Inr 1
   \<and> getFromToResFac grid3 0 2 = Inr 1 \<and> getFromToResFac grid3 0 2 \<noteq> Inr (1 / 4)"
  by (simp add: grid3_def getRes_def py_index_def getFromToResFac_def)


section \<open>Properties of the tile cache\<close>


lemma init_fresh: "GeoPackage_init cachePath grid3 Map.empty = (Inr store3, [cachePath \<mapsto> Database gpkg3])"
  by (simp add: GeoPackage_init_def GeoPackage_attrs_def grid3_def py_int_def is_digit_def digits_value_def
      getResList_def isGPKG_def Let_def and_then_def create_def connect_def empty_database_def
    create_table_def insertMetadata_def transaction_def insert_row_def has_columns_def
   insertCRS_def insertTileMatrixSet_def tile_matrix_stmt_def bind_r_def py_truediv_def conflicts_def
    splitext_root_def basename_def py_str_def str_nat.simps enumerate_eq_zip GP10_def
    cachePath_def store3_def gpkg3_def gpkg_schema_def)

text \<open>
  C3. The batch read is not N sequential single reads. For N = 0 \<^verbatim>\<open>getTiles\<close> raises
  ValueError where no single call is made at all. For N = 1 and a tile stored more than
  \<^verbatim>\<open>MAX_DAYS\<close> ago, \<^verbatim>\<open>getTile\<close> returns \<^verbatim>\<open>None\<close> and \<^verbatim>\<open>getTiles\<close> returns the expired row.
  For N = 50 keys on a diagonal, \<^verbatim>\<open>getTiles\<close> returns a row whose key is none of the 50
  (its column, its row and its zoom each occur in some key) and that 50 single calls do
  not return.
\<close>

theorem GeoPackage_getTiles_differs:
  "fst (GeoPackage_getTiles store3 [] [cachePath \<mapsto> Database gpkg3_tile]) = Inl ValueError
   \<and> fst (getTile_each store3 0 [] [cachePath \<mapsto> Database gpkg3_tile]) = Inr []
   \<and> fst (GeoPackage_getTile store3 (100 * 86400) 1 1 1 [cachePath \<mapsto> Database gpkg3_tile]) = Inr None
   \<and> fst (getTile_each store3 (100 * 86400) [(1, 1, 1)] [cachePath \<mapsto> Database gpkg3_tile]) = Inr []
   \<and> fst (GeoPackage_getTiles store3 [(1, 1, 1)] [cachePath \<mapsto> Database gpkg3_tile])
       = Inr [(1, 1, 1, png)]
   \<and> length keys50 = 50
   \<and> fst (getTile_each store3 0 keys50 [cachePath \<mapsto> Database gpkg3_tile]) = Inr []
   \<and> fst (GeoPackage_getTiles store3 keys50 [cachePath \<mapsto> Database gpkg3_tile])
       = Inr [(1, 1, 1, png)]"
  by code_simp


text \<open>
  The batch write, on a store that has the tile table and for entries that all carry
  data, leaves the disk as the sequence of single writes does.
\<close>

lemma run_stmts_insert_tiles:
  assumes "has_columns d ''gpkg_tiles'' [''tile_column'', ''tile_row'', ''zoom_level'', ''tile_data'']"
    and "list_all (\<lambda>t. snd (snd (snd t)) \<noteq> None) tiles"
  shows "\<exists>d'. run_stmts (map (insert_tile now) tiles) d = (None, d') \<and> schema d' = schema d"
  using assms
proof (induction tiles arbitrary: d)
  case Nil
  then show ?case by simp
next
  case (Cons t ts)
  obtain x y z b where t: "t = (x, y, z, Some b)"
    using Cons.prems(2) by (cases t) auto
  obtain d1 where d1: "insert_tile now t d = Inr d1" "schema d1 = schema d"
    using Cons.prems(1) t by (simp add: insert_tile_def)
  have "has_columns d1 ''gpkg_tiles'' [''tile_column'', ''tile_row'', ''zoom_level'', ''tile_data'']"
    using Cons.prems(1) d1(2) by (simp add: has_columns_def)
  from Cons.IH [OF this] Cons.prems(2) d1 show ?case by simp
qed

lemma putTiles_eq_putTile_each:
  assumes "fs (dbPath self) = Some (Database d)"
    and "has_columns d ''gpkg_tiles'' [''tile_column'', ''tile_row'', ''zoom_level'', ''tile_data'']"
    and "list_all (\<lambda>t. snd (snd (snd t)) \<noteq> None) tiles"
  shows "GeoPackage_putTiles self now tiles fs = putTile_each self now tiles fs"
  using assms
proof (induction tiles arbitrary: fs d)
  case Nil
  have "fs(dbPath self \<mapsto> Database d) = fs" using Nil.prems(1) by (simp add: map_upd_triv)
  then show ?case
    using Nil.prems(1) by (simp add: GeoPackage_putTiles_def transaction_def connect_def)
next
  case (Cons t ts)
  obtain x y z b where t: "t = (x, y, z, Some b)"
    using Cons.prems(3) by (cases t) auto
  obtain d1 where d1: "insert_tile now t d = Inr d1" "schema d1 = schema d"
    using Cons.prems(2) t by (simp add: insert_tile_def)
  have hc: "has_columns d1 ''gpkg_tiles'' [''tile_column'', ''tile_row'', ''zoom_level'', ''tile_data'']"
    using Cons.prems(2) d1(2) by (simp add: has_columns_def)
  have rest: "list_all (\<lambda>t. snd (snd (snd t)) \<noteq> None) ts" using Cons.prems(3) by simp
  obtain d' where d': "run_stmts (map (insert_tile now) ts) d1 = (None, d')"
    using run_stmts_insert_tiles [OF hc rest] by blast
  let ?fs1 = "fs(dbPath self \<mapsto> Database d1)"
  have one: "GeoPackage_putTile self now x y z (Some b) fs = (Inr (), ?fs1)"
    using Cons.prems(1) d1(1) t
    by (simp add: GeoPackage_putTile_def transaction_def connect_def)
  have batch: "GeoPackage_putTiles self now (t # ts) fs = (Inr (), fs(dbPath self \<mapsto> Database d'))"
    using Cons.prems(1) d1(1) d'
    by (simp add: GeoPackage_putTiles_def transaction_def connect_def)
  have "GeoPackage_putTiles self now ts ?fs1 = (Inr (), fs(dbPath self \<mapsto> Database d'))"
    using d' by (simp add: GeoPackage_putTiles_def transaction_def connect_def)
  moreover have "GeoPackage_putTiles self now ts ?fs1 = putTile_each self now ts ?fs1"
    by (rule Cons.IH [OF _ hc rest]) simp
  ultimately show ?case using one batch t by (simp add: and_then_def)
qed

lemma tile_matrix_stmts_ok:
  assumes "has_columns d ''gpkg_tile_matrix''
             [''table_name'', ''zoom_level'', ''matrix_width'', ''matrix_height'',
              ''tile_width'', ''tile_height'', ''pixel_x_size'', ''pixel_y_size'']"
    and "gp_tileSize self \<noteq> 0" and "list_all (\<lambda>lr. snd lr \<noteq> 0) lrs"
  shows "\<exists>d'. run_stmts (map (tile_matrix_stmt self) lrs) d = (None, d')
            \<and> schema d' = schema d \<and> application_id d' = application_id d
            \<and> gpkg_tiles d' = gpkg_tiles d"
  using assms
proof (induction lrs arbitrary: d)
  case Nil
  then show ?case by simp
next
  case (Cons lr lrs)
  obtain d1 where d1: "tile_matrix_stmt self lr d = Inr d1" "schema d1 = schema d"
      "application_id d1 = application_id d" "gpkg_tiles d1 = gpkg_tiles d"
    using Cons.prems
    by (simp add: tile_matrix_stmt_def Let_def bind_r_def py_truediv_def insert_row_def)
  have "has_columns d1 ''gpkg_tile_matrix''
             [''table_name'', ''zoom_level'', ''matrix_width'', ''matrix_height'',
              ''tile_width'', ''tile_height'', ''pixel_x_size'', ''pixel_y_size'']"
    using Cons.prems(1) d1(2) by (simp add: has_columns_def)
  from Cons.IH [OF this Cons.prems(2)] Cons.prems(3) d1 show ?case by simp
qed

lemma fresh_tables_D:
  assumes "fresh_tables d" and "t \<in> set (map fst gpkg_schema)"
  shows "map_of (schema d) t = None" and "\<not> list_ex (conflicts u v t) (meta_rows d)"
proof -
  have a: "map_of (schema d) t = None \<and> \<not> list_ex (\<lambda>r. fst r = t) (meta_rows d)"
    using assms unfolding fresh_tables_def list_all_iff by blast
  then show "map_of (schema d) t = None" by simp
  from a show "\<not> list_ex (conflicts u v t) (meta_rows d)"
    by (auto simp: list_ex_iff conflicts_def)
qed

lemma create_on_database:
  assumes "fs (dbPath self) = Some (Database d)" and "fresh_tables d"
  shows "create self fs =
           (Inr (), fs(dbPath self \<mapsto>
              Database (d\<lparr>application_id := GP10, schema := schema d @ gpkg_schema\<rparr>)))"
proof -
  have n: "map_of (schema d) ''gpkg_contents'' = None"
    "map_of (schema d) ''gpkg_spatial_ref_sys'' = None"
    "map_of (schema d) ''gpkg_tile_matrix_set'' = None"
    "map_of (schema d) ''gpkg_tile_matrix'' = None"
    "map_of (schema d) ''gpkg_tiles'' = None"
    using fresh_tables_D(1) [OF assms(2)] by (simp_all add: gpkg_schema_def)
  show ?thesis
    using assms(1) n
    by (simp add: create_def connect_def create_table_def map_add_def gpkg_schema_def)
qed


lemma transaction_on_database:
  assumes "fs path = Some (Database d)" and "run_stmts stmts d = (None, d')"
  shows "transaction path stmts fs = (Inr (), fs(path \<mapsto> Database d'))"
  using assms by (simp add: transaction_def connect_def)

lemma init_on_other_database:
  assumes crs: "py_split (CHR '':'') (CRS tm) = [a, c]" "py_int c = Inr k"
    and rl: "getResList tm = Inr rl"
    and db: "fs path = Some (Database d)"
    and no: "isGPKG (GeoPackage_attrs path a k tm rl) fs = Inr False"
    and fresh: "fresh_tables d"
    and nz: "tileSize tm \<noteq> 0" "list_all (\<lambda>r. r \<noteq> 0) rl"
  shows "\<exists>d'. GeoPackage_init path tm fs
                 = (Inr (GeoPackage_attrs path a k tm rl), fs(path \<mapsto> Database d'))
            \<and> application_id d' = GP10 \<and> schema d' = schema d @ gpkg_schema
            \<and> gpkg_tiles d' = gpkg_tiles d"
proof -
  let ?self = "GeoPackage_attrs path a k tm rl"
  have p: "dbPath ?self = path" by (simp add: GeoPackage_attrs_def)
  have n: "map_of (schema d) ''gpkg_contents'' = None"
    "map_of (schema d) ''gpkg_spatial_ref_sys'' = None"
    "map_of (schema d) ''gpkg_tile_matrix_set'' = None"
    "map_of (schema d) ''gpkg_tile_matrix'' = None"
    "map_of (schema d) ''gpkg_tiles'' = None"
    using fresh_tables_D(1) [OF fresh] by (simp_all add: gpkg_schema_def)
  have c: "\<And>u v. \<not> list_ex (conflicts u v ''gpkg_contents'') (meta_rows d)"
    "\<And>u v. \<not> list_ex (conflicts u v ''gpkg_spatial_ref_sys'') (meta_rows d)"
    using fresh_tables_D(2) [OF fresh] by (simp_all add: gpkg_schema_def)
  define d1 where "d1 = d\<lparr>application_id := GP10, schema := schema d @ gpkg_schema\<rparr>"
  define fs1 where "fs1 = fs(path \<mapsto> Database d1)"
  have s1: "create ?self fs = (Inr (), fs1)"
    using create_on_database [of fs ?self d] db fresh p by (simp add: d1_def fs1_def)
  define row1 where "row1 = (''gpkg_contents'',
      [SqlText ''gpkg_tiles'', SqlText ''tiles'', SqlText (name ?self),
       SqlText ''Created with BlenderGIS'', SqlReal (gp_xmin ?self), SqlReal (gp_ymin ?self),
       SqlReal (gp_xmax ?self), SqlReal (gp_ymax ?self), SqlInt (code ?self)])"
  define d2 where "d2 = d1\<lparr>meta_rows := meta_rows d @ [row1]\<rparr>"
  define fs2 where "fs2 = fs(path \<mapsto> Database d2)"
  have s2: "insertMetadata ?self fs1 = (Inr (), fs2)"
    using n c(1) p
    by (simp add: insertMetadata_def transaction_def connect_def fs1_def fs2_def d1_def d2_def
        row1_def insert_row_def has_columns_def map_add_def gpkg_schema_def)
  define row2 where "row2 = (''gpkg_spatial_ref_sys'',
      [SqlInt (code ?self), SqlText (auth ?self), SqlInt (code ?self),
       SqlText (py_str (code ?self)), SqlText []])"
  define d3 where "d3 = d2\<lparr>meta_rows := meta_rows d @ [row1, row2]\<rparr>"
  define fs3 where "fs3 = fs(path \<mapsto> Database d3)"
  have s3: "insertCRS ?self (code ?self) (py_str (code ?self)) (auth ?self) [] fs2 = (Inr (), fs3)"
    using n c(2) p
    by (simp add: insertCRS_def transaction_def connect_def fs2_def fs3_def d1_def d2_def d3_def
        row1_def row2_def insert_row_def has_columns_def map_add_def gpkg_schema_def
        conflicts_def)
  define row3 where "row3 = (''gpkg_tile_matrix_set'',
      [SqlText ''gpkg_tiles'', SqlInt (code ?self), SqlReal (gp_xmin ?self),
       SqlReal (gp_ymin ?self), SqlReal (gp_xmax ?self), SqlReal (gp_ymax ?self)])"
  define d4 where "d4 = d3\<lparr>meta_rows :=
      filter (\<lambda>r. \<not> conflicts [[0]] (snd row3) ''gpkg_tile_matrix_set'' r) (meta_rows d3) @ [row3]\<rparr>"
  have h3: "has_columns d3 ''gpkg_tile_matrix_set''
           [''table_name'', ''srs_id'', ''min_x'', ''min_y'', ''max_x'', ''max_y'']"
    using n by (simp add: has_columns_def map_add_def gpkg_schema_def d1_def d2_def d3_def)
  have i4: "insert_row True ''gpkg_tile_matrix_set''
           [''table_name'', ''srs_id'', ''min_x'', ''min_y'', ''max_x'', ''max_y'']
           [[0]] (snd row3) d3 = Inr d4"
    using h3 by (simp add: insert_row_def d4_def row3_def)
  have h4: "has_columns d4 ''gpkg_tile_matrix''
             [''table_name'', ''zoom_level'', ''matrix_width'', ''matrix_height'',
              ''tile_width'', ''tile_height'', ''pixel_x_size'', ''pixel_y_size'']"
    using n by (simp add: has_columns_def map_add_def gpkg_schema_def d1_def d2_def d3_def d4_def)
  have nz': "gp_tileSize ?self \<noteq> 0"
    "list_all (\<lambda>lr. snd lr \<noteq> 0) (enumerate 0 (gp_resolutions ?self))"
    using nz by (auto simp: GeoPackage_attrs_def list_all_iff enumerate_eq_zip dest: set_zip_rightD)
  obtain d5 where d5: "run_stmts (map (tile_matrix_stmt ?self) (enumerate 0 (gp_resolutions ?self))) d4
        = (None, d5)" "schema d5 = schema d4" "application_id d5 = application_id d4"
      "gpkg_tiles d5 = gpkg_tiles d4"
    using tile_matrix_stmts_ok [OF h4 nz'] by blast
  have s4: "insertTileMatrixSet ?self fs3 = (Inr (), fs(path \<mapsto> Database d5))"
    using i4 d5(1) p
    by (simp add: insertTileMatrixSet_def transaction_def connect_def fs3_def row3_def)
  have "GeoPackage_init path tm fs = (Inr ?self, fs(path \<mapsto> Database d5))"
    using crs rl no s1 s2 s3 s4 by (simp add: GeoPackage_init_def and_then_def)
  moreover have "application_id d5 = GP10" "schema d5 = schema d @ gpkg_schema"
    "gpkg_tiles d5 = gpkg_tiles d"
    using d5(2-4) by (simp_all add: d1_def d2_def d3_def d4_def)
  ultimately show ?thesis by blast
qed

text \<open>
  C7 (as amended). Opening a path that holds a store passing \<^verbatim>\<open>isGPKG\<close> returns the
  store object and leaves the disk as it was. Opening a path whose file is not an SQLite
  database raises DatabaseError and leaves the disk as it was. Opening a path that holds
  an SQLite database failing the check is not refused: the constructor runs schema
  creation on that file, and (when none of the five table names is taken and no divisor
  is zero) returns normally with the file's application id overwritten and the five
  tables added to its schema.
\<close>

theorem GeoPackage_init_existing_path:
  assumes "py_split (CHR '':'') (CRS tm) = [a, c]" and "py_int c = Inr k"
    and "getResList tm = Inr rl"
  shows "(isGPKG (GeoPackage_attrs path a k tm rl) fs = Inr True \<longrightarrow>
            GeoPackage_init path tm fs = (Inr (GeoPackage_attrs path a k tm rl), fs))
       \<and> (fs path = Some (NotADatabase b) \<longrightarrow>
            GeoPackage_init path tm fs = (Inl DatabaseError, fs))
       \<and> (fs path = Some (Database d) \<and> isGPKG (GeoPackage_attrs path a k tm rl) fs = Inr False
            \<and> fresh_tables d \<and> tileSize tm \<noteq> 0 \<and> list_all (\<lambda>r. r \<noteq> 0) rl \<longrightarrow>
            (\<exists>d'. GeoPackage_init path tm fs
                     = (Inr (GeoPackage_attrs path a k tm rl), fs(path \<mapsto> Database d'))
                \<and> application_id d' = GP10 \<and> schema d' = schema d @ gpkg_schema
                \<and> gpkg_tiles d' = gpkg_tiles d))"
proof (intro conjI impI)
  assume "isGPKG (GeoPackage_attrs path a k tm rl) fs = Inr True"
  then show "GeoPackage_init path tm fs = (Inr (GeoPackage_attrs path a k tm rl), fs)"
    using assms by (simp add: GeoPackage_init_def)
next
  assume "fs path = Some (NotADatabase b)"
  then show "GeoPackage_init path tm fs = (Inl DatabaseError, fs)"
    using assms by (simp add: GeoPackage_init_def isGPKG_def GeoPackage_attrs_def)
next
  assume h: "fs path = Some (Database d) \<and> isGPKG (GeoPackage_attrs path a k tm rl) fs = Inr False
            \<and> fresh_tables d \<and> tileSize tm \<noteq> 0 \<and> list_all (\<lambda>r. r \<noteq> 0) rl"
  show "\<exists>d'. GeoPackage_init path tm fs
                     = (Inr (GeoPackage_attrs path a k tm rl), fs(path \<mapsto> Database d'))
                \<and> application_id d' = GP10 \<and> schema d' = schema d @ gpkg_schema
                \<and> gpkg_tiles d' = gpkg_tiles d"
    using init_on_other_database [OF assms, of fs path d] h by blast
qed


lemma grid3_crs:
  "py_split (CHR '':'') (CRS grid3) = [''EPSG'', ''3857'']" "py_int ''3857'' = Inr 3857"
  "getResList grid3 = Inr [4, 2, 1]" "GeoPackage_attrs cachePath ''EPSG'' 3857 grid3 [4, 2, 1] = store3"
  by (simp_all add: grid3_def py_int_def is_digit_def digits_value_def getResList_def
      GeoPackage_attrs_def store3_def cachePath_def splitext_root_def basename_def)

theorem GeoPackage_init_existing_path_witness:
  "GeoPackage_init cachePath grid3 [cachePath \<mapsto> Database gpkg3]
     = (Inr store3, [cachePath \<mapsto> Database gpkg3])
   \<and> GeoPackage_init cachePath grid3 [cachePath \<mapsto> NotADatabase [1, 2, 3]]
     = (Inl DatabaseError, [cachePath \<mapsto> NotADatabase [1, 2, 3]])
   \<and> fst (GeoPackage_init cachePath grid3 [cachePath \<mapsto> Database other_app]) = Inr store3"
proof -
  note t = GeoPackage_init_existing_path [OF grid3_crs(1-3)]
  have a: "isGPKG store3 [cachePath \<mapsto> Database gpkg3] = Inr True"
    by (simp add: isGPKG_def store3_def gpkg3_def GP10_def has_columns_def gpkg_schema_def)
  have b: "isGPKG store3 [cachePath \<mapsto> Database other_app] = Inr False"
    by (simp add: isGPKG_def store3_def other_app_def GP10_def)
  have c: "fresh_tables other_app" "tileSize grid3 \<noteq> 0" "list_all (\<lambda>r. r \<noteq> 0) [4, 2, 1::real]"
    by (simp_all add: fresh_tables_def other_app_def gpkg_schema_def grid3_def)
  have t1: "GeoPackage_init cachePath grid3 [cachePath \<mapsto> Database gpkg3]
     = (Inr store3, [cachePath \<mapsto> Database gpkg3])"
    using t [of cachePath "[cachePath \<mapsto> Database gpkg3]"] a by (simp add: grid3_crs(4))
  have t2: "GeoPackage_init cachePath grid3 [cachePath \<mapsto> NotADatabase [1, 2, 3]]
     = (Inl DatabaseError, [cachePath \<mapsto> NotADatabase [1, 2, 3]])"
    using t [of cachePath "[cachePath \<mapsto> NotADatabase [1, 2, 3]]" "[1, 2, 3]"] by simp
  have "\<exists>d'. GeoPackage_init cachePath grid3 [cachePath \<mapsto> Database other_app]
          = (Inr store3, [cachePath \<mapsto> Database other_app, cachePath \<mapsto> Database d'])"
    using t [of cachePath "[cachePath \<mapsto> Database other_app]" _ other_app] b c
    by (auto simp: grid3_crs(4))
  then have t3: "fst (GeoPackage_init cachePath grid3 [cachePath \<mapsto> Database other_app]) = Inr store3"
    by auto
  from t1 t2 t3 show ?thesis by blast
qed

text \<open>
  The claim C7 as stated has the constructor refuse a path whose contents are not a
  store, without altering them. On a database of another application (one table, one
  row, application id 0) the constructor returns the store object without an error, and
  the file at the path is no longer what it was.
\<close>

theorem GeoPackage_init_alters_counterexample:
  "isGPKG store3 [cachePath \<mapsto> Database other_app] = Inr False
   \<and> fst (GeoPackage_init cachePath grid3 [cachePath \<mapsto> Database other_app]) = Inr store3
   \<and> snd (GeoPackage_init cachePath grid3 [cachePath \<mapsto> Database other_app]) cachePath
       \<noteq> Some (Database other_app)"
  by (simp add: GeoPackage_init_def GeoPackage_attrs_def grid3_def py_int_def is_digit_def
      digits_value_def getResList_def isGPKG_def Let_def and_then_def create_def connect_def
      create_table_def insertMetadata_def transaction_def insert_row_def has_columns_def
      insertCRS_def insertTileMatrixSet_def tile_matrix_stmt_def bind_r_def py_truediv_def
      conflicts_def splitext_root_def basename_def py_str_def str_nat.simps enumerate_eq_zip
      GP10_def cachePath_def store3_def other_app_def)

section \<open>Properties of the tile service\<close>


lemma getTileCoords_getRes:
  assumes "getTileCoords tm col row zoom = Inr (x, y)"
  shows "\<exists>r. getRes tm zoom = Inr r"
  using assms by (cases "getRes tm zoom") (simp_all add: getTileCoords_def bind_r_def)

lemma getTileCoords_getTileBbox:
  assumes "getTileCoords tm col row zoom = Inr (x, y)"
  shows "\<exists>bb. getTileBbox tm col row zoom = Inr bb"
  using assms getTileCoords_getRes [OF assms]
  by (auto simp: getTileBbox_def bind_r_def Let_def)

text \<open>
  C1. A source-grid request with \<^verbatim>\<open>useCache=True\<close> that is in bounds, misses the cache and
  downloads bytes that sniff as an image does not return them: on a service object that
  has no attribute \<^verbatim>\<open>zoom\<close>, the write to the cache raises AttributeError. The call ends
  after the cache read and the download; nothing is written to the store.
\<close>

theorem getTile_write_through_raises:
  assumes "zoom_attr self = None"
    and "getTileCoords (srcTms self) col row zoom = Inr (x, y)"
    and "0 \<le> col" and "0 \<le> row"
    and "xmin (srcTms self) \<le> x" and "x < xmax (srcTms self)"
    and "ymin (srcTms self) < y" and "y \<le> ymax (srcTms self)"
    and "getCache self laykey False w = (Inr cache, w1)"
    and "cache_getTile cache e col row zoom w1 = (Inr hit, w2)"
    and "\<forall>d. hit = Some d \<longrightarrow> imghdr_what e d = None"
    and "laykey \<in> set (layers self)"
    and "web e laykey col row zoom = Some data" and "imghdr_what e data \<noteq> None"
  shows "MapService_getTile self e laykey col row zoom False True w
           = (Inl AttributeError, did (HttpGet laykey col row zoom) w2)"
proof -
  have miss: "(case hit of None \<Rightarrow> None
               | Some d \<Rightarrow> if imghdr_what e d \<noteq> None then Some d else None) = None"
    using assms(11) by (cases hit) auto
  show ?thesis
    using assms(1-10,12-14) miss
    by (simp add: MapService_getTile_def getTile_with_def select_tms_def and_then_def
        downloadTile_def)
qed


lemma getCache_svc3:
  "getCache svc3 ''LAY'' False world0
     = (Inr store3, world0\<lparr>disk := [cachePath \<mapsto> Database gpkg3],
                           caches := [(''SRC_LAY_WM'', store3)],
                           io_log := [CacheOpen cachePath]\<rparr>)"
proof -
  show ?thesis
    using init_fresh [unfolded cachePath_def]
    by (simp add: getCache_def select_tms_def Let_def svc3_def world0_def did_def cachePath_def)
qed

theorem getTile_write_through_raises_witness:
  "fst (MapService_getTile svc3 env3 ''LAY'' 0 0 0 False True world0) = Inl AttributeError
   \<and> disk (snd (MapService_getTile svc3 env3 ''LAY'' 0 0 0 False True world0)) cachePath
       = Some (Database gpkg3)
   \<and> gpkg_tiles gpkg3 = []"
proof -
  let ?w1 = "world0\<lparr>disk := [cachePath \<mapsto> Database gpkg3],
                     caches := [(''SRC_LAY_WM'', store3)], io_log := [CacheOpen cachePath]\<rparr>"
  let ?w2 = "(did (CacheGet cachePath 0 0 0) ?w1)\<lparr>disk := [cachePath \<mapsto> Database gpkg3]\<rparr>"
  have c: "cache_getTile store3 env3 0 0 0 ?w1 = (Inr None, ?w2)"
    by (simp add: cache_getTile_def GeoPackage_getTile_def and_then_def connect_def store3_def
        gpkg3_def has_columns_def gpkg_schema_def)
  have "MapService_getTile svc3 env3 ''LAY'' 0 0 0 False True world0
          = (Inl AttributeError, did (HttpGet ''LAY'' 0 0 0) ?w2)"
  proof (rule getTile_write_through_raises [OF _ _ _ _ _ _ _ _ getCache_svc3 c])
    show "getTileCoords (srcTms svc3) 0 0 0 = Inr (0, 1024)"
      by (simp add: getTileCoords_def svc3_def grid3_def getRes_def py_index_def bind_r_def)
    show "web env3 ''LAY'' 0 0 0 = Some png" by (simp add: env3_def)
    show "imghdr_what env3 png \<noteq> None" by (simp add: env3_def png_def)
  qed (simp_all add: svc3_def grid3_def)
  then show ?thesis by (simp add: did_def gpkg3_def)
qed


text \<open>
  C6 (as amended). Where the grid is defined and the top-left corner of the tile can be
  computed: a request with a negative column or row, or with a top-left corner left of
  \<open>xmin\<close>, at or right of \<open>xmax\<close>, at or below \<open>ymin\<close>, or above \<open>ymax\<close>, returns \<^verbatim>\<open>None\<close>
  and leaves the world as it was (no cache opened, read or written, no download). A
  top-left corner exactly on the upper boundary \<open>y = ymax\<close> is inside the extent: such a
  request is not rejected (without cache, on the source grid, it is the download).
\<close>

theorem getTile_out_of_bounds:
  assumes "select_tms self toDstGrid = Inr (grdkey, tm)"
    and "getTileCoords tm col row zoom = Inr (x, y)"
  shows "(col < 0 \<or> row < 0 \<or> x < xmin tm \<or> xmax tm \<le> x \<or> y \<le> ymin tm \<or> ymax tm < y
            \<longrightarrow> MapService_getTile self e laykey col row zoom toDstGrid useCache w = (Inr None, w))
       \<and> (0 \<le> col \<and> 0 \<le> row \<and> xmin tm \<le> x \<and> x < xmax tm \<and> ymin tm < y \<and> y = ymax tm
            \<and> \<not> toDstGrid \<and> \<not> useCache
            \<longrightarrow> MapService_getTile self e laykey col row zoom toDstGrid useCache w
                  = downloadTile self e laykey col row zoom w)"
proof (intro conjI impI)
  assume "col < 0 \<or> row < 0 \<or> x < xmin tm \<or> xmax tm \<le> x \<or> y \<le> ymin tm \<or> ymax tm < y"
  then show "MapService_getTile self e laykey col row zoom toDstGrid useCache w = (Inr None, w)"
    using assms by (auto simp: MapService_getTile_def getTile_with_def)
next
  assume "0 \<le> col \<and> 0 \<le> row \<and> xmin tm \<le> x \<and> x < xmax tm \<and> ymin tm < y \<and> y = ymax tm
            \<and> \<not> toDstGrid \<and> \<not> useCache"
  then show "MapService_getTile self e laykey col row zoom toDstGrid useCache w
                  = downloadTile self e laykey col row zoom w"
    using assms
    by (cases "downloadTile self e laykey col row zoom w"; cases "fst (downloadTile self e laykey col row zoom w)")
       (auto simp: MapService_getTile_def getTile_with_def and_then_def split: option.splits)
qed

lemma svc3_coords:
  "select_tms svc3 False = Inr (''WM'', grid3)"
  "getTileCoords grid3 (-1) 0 0 = Inr (-1024, 1024)"
  "getTileCoords grid3 4 0 2 = Inr (1024, 1024)"
  "getTileCoords grid3 0 4 2 = Inr (0, 0)"
  "getTileCoords grid3 0 0 0 = Inr (0, 1024)"
  by (simp_all add: select_tms_def svc3_def getTileCoords_def grid3_def getRes_def py_index_def
      bind_r_def)

theorem getTile_out_of_bounds_witness:
  "MapService_getTile svc3 env3 ''LAY'' (-1) 0 0 False True world0 = (Inr None, world0)
   \<and> MapService_getTile svc3 env3 ''LAY'' 4 0 2 False True world0 = (Inr None, world0)
   \<and> MapService_getTile svc3 env3 ''LAY'' 0 4 2 False True world0 = (Inr None, world0)
   \<and> fst (MapService_getTile svc3 env3 ''LAY'' 0 0 0 False False world0) = Inr (Some png)"
  using getTile_out_of_bounds [OF svc3_coords(1) svc3_coords(2), of env3 "''LAY''" True world0]
    getTile_out_of_bounds [OF svc3_coords(1) svc3_coords(3), of env3 "''LAY''" True world0]
    getTile_out_of_bounds [OF svc3_coords(1) svc3_coords(4), of env3 "''LAY''" True world0]
    getTile_out_of_bounds [OF svc3_coords(1) svc3_coords(5), of env3 "''LAY''" False world0]
  by (simp add: grid3_def downloadTile_def svc3_def env3_def png_def)

text \<open>
  The claim C6 as stated rejects a top-left corner on the upper boundary. Tile (0, 0) at
  zoom 0 of the three-level grid has its top-left corner at \<open>(xmin, ymax)\<close>, and the request
  is served from the network.
\<close>

theorem getTile_upper_boundary_counterexample:
  "getTileCoords grid3 0 0 0 = Inr (0, 1024) \<and> ymax grid3 = 1024
   \<and> fst (MapService_getTile svc3 env3 ''LAY'' 0 0 0 False False world0) = Inr (Some png)
   \<and> io_log (snd (MapService_getTile svc3 env3 ''LAY'' 0 0 0 False False world0))
       = [HttpGet ''LAY'' 0 0 0]"
  by (simp add: MapService_getTile_def getTile_with_def select_tms_def svc3_def getTileCoords_def
      grid3_def getRes_def py_index_def bind_r_def and_then_def downloadTile_def env3_def png_def
      did_def world0_def)

text \<open>
  C9. A destination-grid request that is in bounds and misses the cache (or does not use
  it), on a service whose source grid is in degrees and whose destination grid is in
  meters, selects no source zoom and requests no mosaic: the unit conversion calls
  \<^verbatim>\<open>meters2dd\<close>, a name the module does not have, and the call raises NameError.
\<close>

theorem getTile_meters2dd_raises:
  assumes "dstGrid self = Some (grdkey, dtm)"
    and "units (srcTms self) = ''degrees''" and "units dtm = ''meters''"
    and "getTileCoords dtm col row zoom = Inr (x, y)"
    and "0 \<le> col" and "0 \<le> row"
    and "xmin dtm \<le> x" and "x < xmax dtm" and "ymin dtm < y" and "y \<le> ymax dtm"
  shows "(\<not> useCache \<longrightarrow>
            MapService_getTile self e laykey col row zoom True useCache w = (Inl NameError, w))
       \<and> (useCache \<and> getCache self laykey True w = (Inr cache, w1)
            \<and> cache_getTile cache e col row zoom w1 = (Inr hit, w2)
            \<and> (\<forall>d. hit = Some d \<longrightarrow> imghdr_what e d = None) \<longrightarrow>
            MapService_getTile self e laykey col row zoom True useCache w = (Inl NameError, w2))"
proof -
  obtain r where r: "getRes dtm zoom = Inr r"
    using getTileCoords_getRes [OF assms(4)] by blast
  obtain bb where bb: "getTileBbox dtm col row zoom = Inr bb"
    using getTileCoords_getTileBbox [OF assms(4)] by blast
  have rt: "\<And>m w'. reprojectedTile m self e dtm laykey col row zoom w' = (Inl NameError, w')"
    using r bb assms(2,3) by (simp add: reprojectedTile_def and_then_def lift_r_def)
  show ?thesis
  proof (intro conjI impI)
    assume "\<not> useCache"
    then show "MapService_getTile self e laykey col row zoom True useCache w = (Inl NameError, w)"
      using assms rt
      by (simp add: MapService_getTile_def getTile_with_def select_tms_def and_then_def)
  next
    assume h: "useCache \<and> getCache self laykey True w = (Inr cache, w1)
            \<and> cache_getTile cache e col row zoom w1 = (Inr hit, w2)
            \<and> (\<forall>d. hit = Some d \<longrightarrow> imghdr_what e d = None)"
    then have miss: "(case hit of None \<Rightarrow> None
               | Some d \<Rightarrow> if imghdr_what e d \<noteq> None then Some d else None) = None"
      by (cases hit) auto
    show "MapService_getTile self e laykey col row zoom True useCache w = (Inl NameError, w2)"
      using assms rt h miss
      by (simp add: MapService_getTile_def getTile_with_def select_tms_def and_then_def)
  qed
qed

lemma getCache_svcDeg:
  "getCache svcDeg ''LAY'' True world0
     = (Inr store3, world0\<lparr>disk := [cachePath \<mapsto> Database gpkg3],
                           caches := [(''SRC_LAY_WM'', store3)],
                           io_log := [CacheOpen cachePath]\<rparr>)"
  using init_fresh [unfolded cachePath_def]
  by (simp add: getCache_def select_tms_def Let_def svcDeg_def world0_def did_def cachePath_def)

theorem getTile_meters2dd_raises_witness:
  "MapService_getTile svcDeg env3 ''LAY'' 0 0 0 True False world0 = (Inl NameError, world0)
   \<and> fst (MapService_getTile svcDeg env3 ''LAY'' 0 0 0 True True world0) = Inl NameError"
proof -
  let ?w1 = "world0\<lparr>disk := [cachePath \<mapsto> Database gpkg3],
                     caches := [(''SRC_LAY_WM'', store3)], io_log := [CacheOpen cachePath]\<rparr>"
  let ?w2 = "(did (CacheGet cachePath 0 0 0) ?w1)\<lparr>disk := [cachePath \<mapsto> Database gpkg3]\<rparr>"
  have c: "cache_getTile store3 env3 0 0 0 ?w1 = (Inr None, ?w2)"
    by (simp add: cache_getTile_def GeoPackage_getTile_def and_then_def connect_def store3_def
        gpkg3_def has_columns_def gpkg_schema_def)
  have t: "\<And>useCache w cache w1 hit w2.
     (\<not> useCache \<longrightarrow>
            MapService_getTile svcDeg env3 ''LAY'' 0 0 0 True useCache w = (Inl NameError, w))
       \<and> (useCache \<and> getCache svcDeg ''LAY'' True w = (Inr cache, w1)
            \<and> cache_getTile cache env3 0 0 0 w1 = (Inr hit, w2)
            \<and> (\<forall>d. hit = Some d \<longrightarrow> imghdr_what env3 d = None) \<longrightarrow>
            MapService_getTile svcDeg env3 ''LAY'' 0 0 0 True useCache w = (Inl NameError, w2))"
    by (rule getTile_meters2dd_raises [of svcDeg "''WM''" grid3 0 0 0 0 1024])
       (simp_all add: svcDeg_def gridDeg_def grid3_def getTileCoords_def getRes_def py_index_def
         bind_r_def)
  from t [of False world0] t [of True world0 store3 ?w1 None ?w2] getCache_svcDeg c
  show ?thesis by simp
qed

text \<open>
  For the other unit combinations the source zoom is the one nearest (rule \<^verbatim>\<open>closer\<close>) to
  the destination resolution, converted by \<^verbatim>\<open>dd2meters\<close> when the destination is in degrees
  and the source in meters, and the mosaic is requested on the source grid with
  \<^verbatim>\<open>useCache=False\<close>, four threads and \<^verbatim>\<open>allowEmptyTile=False\<close>: when that request yields
  nothing, so does the tile.
\<close>

lemma reprojectedTile_calls_mosaic:
  assumes "getTileBbox dtm col row zoom = Inr bb" and "getRes dtm zoom = Inr r"
    and "\<not> (units (srcTms self) = ''degrees'' \<and> units dtm = ''meters'')"
    and "getNearestZoom (srcTms self)
           (if units dtm = ''degrees'' \<and> units (srcTms self) = ''meters'' then dd2meters r else r)
           ''closer'' = Inr (Some z)"
    and "getRes (srcTms self) (int z) = Inr r'"
    and "reprojBbox e (CRS dtm) (CRS (srcTms self)) bb = Inr bb'"
    and "mosaic laykey bb' (int z) False False 4 False None False w = (Inr None, w')"
  shows "reprojectedTile mosaic self e dtm laykey col row zoom w = (Inr None, w')"
  using assms by (auto simp: reprojectedTile_def and_then_def lift_r_def bind_r_def)


end
